theory Spec2Isabelle
  imports Complex_Main "HOL-Library.Char_ord" "HOL-Library.List_Lexorder"
    "HOL-Library.Sublist" "HOL-Library.Multiset"
begin

section \<open>Strings\<close>

text \<open>
  A Python \<open>str\<close> is a sequence of code points. Every name of the city catalog, every
  key and every message of the program lies below code point 256, so a string is modelled
  as a \<^typ>\<open>string\<close> whose characters are read as the code points 0..255 (Latin-1).
  Strings are compared as Python compares them: lexicographically by code point.
\<close>

abbreviation a_acute :: char where "a_acute \<equiv> CHR 0xE1"
abbreviation a_tilde :: char where "a_tilde \<equiv> CHR 0xE3"
abbreviation e_acute :: char where "e_acute \<equiv> CHR 0xE9"
abbreviation i_acute :: char where "i_acute \<equiv> CHR 0xED"
abbreviation o_acute :: char where "o_acute \<equiv> CHR 0xF3"
abbreviation u_acute :: char where "u_acute \<equiv> CHR 0xFA"
abbreviation u_uml :: char where "u_uml \<equiv> CHR 0xFC"

text \<open>
  \<open>str.lower()\<close> on this range works character by character: the letters A..Z and the
  capital letters of the Latin-1 supplement (0xC0..0xDE without the multiplication sign
  0xD7) move up by 32, every other character stays.
\<close>

definition is_upper :: "nat \<Rightarrow> bool" where
  "is_upper n = ((65 \<le> n \<and> n \<le> 90) \<or> (192 \<le> n \<and> n \<le> 214) \<or> (216 \<le> n \<and> n \<le> 222))"

definition lower_char :: "char \<Rightarrow> char" where
  "lower_char c = (if is_upper (of_char c) then char_of (of_char c + (32::nat)) else c)"

definition lower :: "string \<Rightarrow> string" where
  "lower s = map lower_char s"

text \<open>\<open>q in s\<close> on strings: \<open>q\<close> occurs in \<open>s\<close> as a contiguous run.\<close>

fun startswith :: "string \<Rightarrow> string \<Rightarrow> bool" where
  "startswith s [] = True"
| "startswith [] (q # qs) = False"
| "startswith (c # cs) (q # qs) = (c = q \<and> startswith cs qs)"

fun str_in :: "string \<Rightarrow> string \<Rightarrow> bool" where
  "str_in q [] = (q = [])"
| "str_in q (c # cs) = (startswith (c # cs) q \<or> str_in q cs)"

section \<open>City directory (WorldCitiesDatabase)\<close>

text \<open>
  \<open>self.cities\<close> is a dict of dicts of lists. A Python dict iterates in insertion
  order, so the catalog is an association list: continents in the order of the literal,
  each with its countries in order, each with its cities in order.
\<close>

type_synonym catalog = "(string \<times> (string \<times> string list) list) list"

definition cities :: catalog where
  "cities = [
    (''North America'', [
      (''United States'', [
        ''New York'', ''Los Angeles'', ''Chicago'', ''Houston'', ''Phoenix'', ''Philadelphia'',
        ''San Antonio'', ''San Diego'', ''Dallas'', ''San Jose'', ''Austin'', ''Jacksonville'',
        ''San Francisco'', ''Columbus'', ''Charlotte'', ''Fort Worth'', ''Indianapolis'',
        ''Seattle'', ''Denver'', ''Washington DC'', ''Boston'', ''El Paso'', ''Nashville'',
        ''Detroit'', ''Oklahoma City'', ''Portland'', ''Las Vegas'', ''Memphis'',
        ''Louisville'', ''Baltimore'', ''Milwaukee'', ''Albuquerque'', ''Tucson'', ''Fresno'',
        ''Sacramento'', ''Kansas City'', ''Mesa'', ''Atlanta'', ''Colorado Springs'',
        ''Omaha'', ''Raleigh'', ''Miami'', ''Cleveland'', ''Tulsa'', ''Oakland'',
        ''Minneapolis'']),
      (''Canada'', [
        ''Toronto'', ''Montreal'', ''Vancouver'', ''Calgary'', ''Edmonton'', ''Ottawa'',
        ''Winnipeg'', ''Quebec City'', ''Hamilton'', ''Kitchener'', ''London'', ''Victoria'',
        ''Halifax'', ''Oshawa'', ''Windsor'']),
      (''Mexico'', [
        ''Mexico City'', ''Guadalajara'', ''Monterrey'', ''Puebla'', ''Tijuana'',
        (''Le'' @ o_acute # ''n''), (''Ju'' @ a_acute # ''rez''),
        (''Torre'' @ o_acute # ''n''), (''Quer'' @ e_acute # ''taro''),
        (''San Luis Potos'' @ [i_acute])])]),
    (''South America'', [
      (''Brazil'', [
        (''S'' @ a_tilde # ''o Paulo''), ''Rio de Janeiro'', (''Bras'' @ i_acute # ''lia''),
        ''Salvador'', ''Fortaleza'', ''Belo Horizonte'', ''Manaus'', ''Curitiba'', ''Recife'',
        ''Porto Alegre'']),
      (''Argentina'', [
        ''Buenos Aires'', (''C'' @ o_acute # ''rdoba''), ''Rosario'', ''Mendoza'',
        (''Tucum'' @ a_acute # ''n''), ''La Plata'', ''Mar del Plata'', ''Salta'',
        ''Santa Fe'', ''San Juan'']),
      (''Chile'', [
        ''Santiago'', (''Valpara'' @ i_acute # ''so''), (''Concepci'' @ o_acute # ''n''),
        ''La Serena'', ''Antofagasta'', ''Temuco'', ''Rancagua'', ''Talca'', ''Arica'',
        (''Chill'' @ a_acute # ''n'')]),
      (''Colombia'', [
        (''Bogot'' @ [a_acute]), (''Medell'' @ i_acute # ''n''), ''Cali'', ''Barranquilla'',
        ''Cartagena'', (''C'' @ u_acute # ''cuta''), ''Bucaramanga'', ''Pereira'',
        ''Santa Marta'', (''Ibagu'' @ [e_acute])])]),
    (''Europe'', [
      (''United Kingdom'', [
        ''London'', ''Birmingham'', ''Manchester'', ''Glasgow'', ''Liverpool'', ''Leeds'',
        ''Sheffield'', ''Edinburgh'', ''Bristol'', ''Cardiff'']),
      (''Germany'', [
        ''Berlin'', ''Hamburg'', ''Munich'', ''Cologne'', ''Frankfurt'', ''Stuttgart'',
        (''D'' @ u_uml # ''sseldorf''), ''Dortmund'', ''Essen'', ''Leipzig'']),
      (''France'', [
        ''Paris'', ''Marseille'', ''Lyon'', ''Toulouse'', ''Nice'', ''Nantes'', ''Strasbourg'',
        ''Montpellier'', ''Bordeaux'', ''Lille'']),
      (''Italy'', [
        ''Rome'', ''Milan'', ''Naples'', ''Turin'', ''Palermo'', ''Genoa'', ''Bologna'',
        ''Florence'', ''Bari'', ''Catania'']),
      (''Spain'', [
        ''Madrid'', ''Barcelona'', ''Valencia'', ''Seville'', ''Zaragoza'',
        (''M'' @ a_acute # ''laga''), ''Murcia'', ''Palma'', ''Las Palmas'', ''Bilbao'']),
      (''Russia'', [
        ''Moscow'', ''Saint Petersburg'', ''Novosibirsk'', ''Yekaterinburg'',
        ''Nizhny Novgorod'', ''Kazan'', ''Chelyabinsk'', ''Omsk'', ''Samara'', ''Rostov-on-Don''])]),
    (''Asia'', [
      (''China'', [
        ''Beijing'', ''Shanghai'', ''Guangzhou'', ''Shenzhen'', ''Tianjin'', ''Wuhan'',
        ''Dongguan'', ''Chengdu'', ''Nanjing'', ''Chongqing'']),
      (''India'', [
        ''Mumbai'', ''Delhi'', ''Bangalore'', ''Hyderabad'', ''Ahmedabad'', ''Chennai'',
        ''Kolkata'', ''Surat'', ''Pune'', ''Jaipur'']),
      (''Japan'', [
        ''Tokyo'', ''Yokohama'', ''Osaka'', ''Nagoya'', ''Sapporo'', ''Fukuoka'', ''Kobe'',
        ''Kawasaki'', ''Kyoto'', ''Saitama'']),
      (''South Korea'', [
        ''Seoul'', ''Busan'', ''Incheon'', ''Daegu'', ''Daejeon'', ''Gwangju'', ''Suwon'',
        ''Ulsan'', ''Changwon'', ''Goyang'']),
      (''Thailand'', [
        ''Bangkok'', ''Samut Prakan'', ''Mueang Nonthaburi'', ''Udon Thani'', ''Chon Buri'',
        ''Nakhon Ratchasima'', ''Chiang Mai'', ''Hat Yai'', ''Pak Kret'', ''Si Racha''])]),
    (''Africa'', [
      (''Nigeria'', [
        ''Lagos'', ''Kano'', ''Ibadan'', ''Kaduna'', ''Port Harcourt'', ''Benin City'',
        ''Maiduguri'', ''Zaria'', ''Aba'', ''Jos'']),
      (''Egypt'', [
        ''Cairo'', ''Alexandria'', ''Giza'', ''Shubra El Kheima'', ''Port Said'', ''Suez'',
        ''Luxor'', ''Mansoura'', ''El Mahalla El Kubra'', ''Tanta'']),
      (''South Africa'', [
        ''Cape Town'', ''Johannesburg'', ''Durban'', ''Pretoria'', ''Port Elizabeth'',
        ''Pietermaritzburg'', ''Benoni'', ''Tembisa'', ''East London'', ''Vereeniging''])]),
    (''Oceania'', [
      (''Australia'', [
        ''Sydney'', ''Melbourne'', ''Brisbane'', ''Perth'', ''Adelaide'', ''Gold Coast'',
        ''Newcastle'', ''Canberra'', ''Sunshine Coast'', ''Wollongong'']),
      (''New Zealand'', [
        ''Auckland'', ''Wellington'', ''Christchurch'', ''Hamilton'', ''Tauranga'',
        ''Napier-Hastings'', ''Dunedin'', ''Palmerston North'', ''Nelson'', ''Rotorua''])])
  ]"

definition popular :: "string list" where
  "popular = [
    ''New York'', ''London'', ''Tokyo'', ''Paris'', ''Singapore'', ''Sydney'', ''Dubai'',
    ''Hong Kong'', ''Los Angeles'', ''Barcelona'', ''Amsterdam'', ''Seoul'', ''Berlin'',
    ''Rome'', ''Madrid'', ''Mumbai'', ''Bangkok'', ''Istanbul'', ''Vienna'', ''Prague'',
    ''Buenos Aires'', (''S'' @ a_tilde # ''o Paulo''), ''Mexico City'', ''Cairo'', ''Moscow'',
    ''Delhi'', ''Shanghai'', ''Beijing'', ''Toronto'', ''Vancouver'', ''Montreal'',
    ''Chicago'', ''San Francisco'', ''Miami'', ''Las Vegas'', ''Orlando'', ''Boston'',
    ''Washington DC'']"

text \<open>The two nested \<open>for\<close> loops over \<open>values()\<close>: every city, in traversal order.\<close>

definition country_lists :: "catalog \<Rightarrow> string list list" where
  "country_lists db = concat (map (\<lambda>(continent, countries). map snd countries) db)"

definition all_cities :: "catalog \<Rightarrow> string list" where
  "all_cities db = concat (country_lists db)"

definition get_all_cities :: "catalog \<Rightarrow> string list" where
  "get_all_cities db = sort (all_cities db)"

definition search_cities :: "catalog \<Rightarrow> string \<Rightarrow> string list" where
  "search_cities db query =
     (let query = lower query
      in sort (concat (map (filter (\<lambda>city. str_in query (lower city))) (country_lists db))))"

text \<open>
  \<open>popular[:limit]\<close>: a slice never raises; a negative bound counts from the end.
\<close>

definition slice_to :: "'a list \<Rightarrow> int \<Rightarrow> 'a list" where
  "slice_to xs limit =
     (if 0 \<le> limit then take (nat limit) xs else take (nat (int (length xs) + limit)) xs)"

definition get_popular_cities :: "int \<Rightarrow> string list" where
  "get_popular_cities limit = slice_to popular limit"

text \<open>
  \<open>find_city_location\<close> of the dashboard: the loops over \<open>items()\<close> return at the first
  country whose list holds the city.
\<close>

fun find_country :: "(string \<times> string list) list \<Rightarrow> string \<Rightarrow> string option" where
  "find_country [] city = None"
| "find_country ((country, cs) # rest) city =
     (if city \<in> set cs then Some country else find_country rest city)"

fun find_city_location :: "catalog \<Rightarrow> string \<Rightarrow> string \<times> string" where
  "find_city_location [] city = (''Unknown'', ''Unknown'')"
| "find_city_location ((continent, countries) # rest) city =
     (case find_country countries city of
        Some country \<Rightarrow> (continent, country)
      | None \<Rightarrow> find_city_location rest city)"

subsection \<open>Traversal order\<close>

text \<open>
  The catalog traversal order lists the (continent, country, cities) entries: continents
  in insertion order, then countries in insertion order.
\<close>

definition traversal :: "catalog \<Rightarrow> (string \<times> string \<times> string list) list" where
  "traversal db =
     concat (map (\<lambda>(continent, countries).
                    map (\<lambda>(country, cs). (continent, country, cs)) countries) db)"

definition holds :: "string \<Rightarrow> string \<times> string \<times> string list \<Rightarrow> bool" where
  "holds city entry = (city \<in> set (snd (snd entry)))"

definition first_match :: "catalog \<Rightarrow> string \<Rightarrow> (string \<times> string) option" where
  "first_match db city =
     map_option (\<lambda>(continent, country, cs). (continent, country))
       (List.find (holds city) (traversal db))"

subsection \<open>Strings: containment and lower case\<close>

lemma startswith_prefix: "startswith s q \<longleftrightarrow> prefix q s"
  by (induction s q rule: startswith.induct) auto

lemma str_in_sublist: "str_in q s \<longleftrightarrow> sublist q s"
  by (induction s) (auto simp: startswith_prefix sublist_Cons_right)

lemma str_in_empty: "str_in [] s"
  by (simp add: str_in_sublist)

lemma lower_char_idem: "lower_char (lower_char c) = lower_char c"
proof (cases "is_upper (of_char c)")
  case True
  then have "\<not> is_upper ((of_char c + 32) mod 256)"
    by (auto simp: is_upper_def)
  with True show ?thesis
    by (simp add: lower_char_def)
next
  case False
  then show ?thesis
    by (simp add: lower_char_def)
qed

lemma lower_idem: "lower (lower s) = lower s"
  by (simp add: lower_def lower_char_idem)

lemma sublist_lower: "sublist s c \<Longrightarrow> sublist (lower s) (lower c)"
  unfolding sublist_def lower_def by (metis map_append)

lemma filter_concat_map: "concat (map (filter P) xss) = filter P (concat xss)"
  by (induction xss) auto

subsection \<open>Search\<close>

lemma search_cities_sorted: "sorted (search_cities db q)"
  by (simp add: search_cities_def Let_def)

lemma search_cities_mset:
  "mset (search_cities db q) =
     filter_mset (\<lambda>c. sublist (lower q) (lower c)) (mset (all_cities db))"
  by (simp add: search_cities_def all_cities_def Let_def filter_concat_map str_in_sublist)

lemma search_cities_member:
  assumes "c \<in> set (all_cities db)" and "sublist s c"
  shows "c \<in> set (search_cities db (lower s))"
proof -
  have "sublist (lower (lower s)) (lower c)"
    using assms(2) by (simp add: lower_idem sublist_lower)
  with assms(1) have "c \<in># mset (search_cities db (lower s))"
    by (simp add: search_cities_mset)
  then show ?thesis by simp
qed

text \<open>
  Claim C2. \<open>search_cities\<close> returns a sorted list (in the order of \<open>sorted()\<close>:
  lexicographic by code point) that holds exactly the catalog cities, with their
  multiplicity, whose lower-cased name contains the lower-cased query as a contiguous run;
  and every catalog city \<open>c\<close> is found by the lower-cased form of each non-empty substring
  \<open>s\<close> of \<open>c\<close>.
\<close>

theorem search_cities_spec:
  "sorted (search_cities db q)
   \<and> mset (search_cities db q)
       = filter_mset (\<lambda>c. sublist (lower q) (lower c)) (mset (all_cities db))
   \<and> (\<forall>c \<in> set (all_cities db). \<forall>s. s \<noteq> [] \<and> sublist s c
         \<longrightarrow> c \<in> set (search_cities db (lower s)))"
  using search_cities_sorted search_cities_mset search_cities_member by blast

theorem search_cities_spec_witness:
  "''Paris'' \<in> set (all_cities cities) \<and> sublist ''Par'' ''Paris''
   \<and> lower ''Par'' = ''par''
   \<and> ''Paris'' \<in> set (search_cities cities ''par'')
   \<and> sorted (search_cities cities ''par'')"
proof -
  have c: "''Paris'' \<in> set (all_cities cities)"
    by (simp add: all_cities_def country_lists_def cities_def)
  have "str_in ''Par'' ''Paris''" by simp
  then have s: "sublist ''Par'' ''Paris''" by (simp only: str_in_sublist)
  have l: "lower ''Par'' = ''par''" by code_simp
  have n: "''Par'' \<noteq> []" by simp
  from search_cities_spec [of cities "''par''"] c s n l
  show ?thesis by (metis search_cities_spec [of cities "''Par''"])
qed

text \<open>
  Claim C10. The empty query matches every name, so \<open>search_cities\<close> with the empty
  string is \<open>get_all_cities\<close>, as a list: the same entries, duplicates across countries
  kept, in the same sorted order.
\<close>

theorem search_empty_is_all: "search_cities db [] = get_all_cities db"
  by (simp add: search_cities_def get_all_cities_def all_cities_def Let_def lower_def
      str_in_empty filter_concat_map)

subsection \<open>Popular cities\<close>

lemma length_popular: "length popular = 38"
  by (simp add: popular_def)

text \<open>
  Claim C3. For every limit \<open>\<ge> 0\<close>, \<open>get_popular_cities\<close> returns the first
  \<open>min limit (length popular)\<close> entries of the curated list, in curated order; a limit
  of at least the length of the list returns the whole list and nothing more.
\<close>

theorem get_popular_cities_spec:
  assumes "0 \<le> limit"
  shows "length (get_popular_cities limit) = min (nat limit) (length popular)
    \<and> get_popular_cities limit = take (nat limit) popular
    \<and> (int (length popular) \<le> limit \<longrightarrow> get_popular_cities limit = popular)"
  using assms by (simp add: get_popular_cities_def slice_to_def)

theorem get_popular_cities_spec_witness:
  "length (get_popular_cities 3) = 3
   \<and> get_popular_cities 3 = [''New York'', ''London'', ''Tokyo'']
   \<and> get_popular_cities 50 = popular
   \<and> length (get_popular_cities 50) = 38"
proof -
  have a: "length (get_popular_cities 3) = min (nat 3) (length popular)
      \<and> get_popular_cities 3 = take (nat 3) popular"
    using get_popular_cities_spec [of 3] by simp
  have b: "get_popular_cities 50 = popular"
    using get_popular_cities_spec [of 50] by (simp add: length_popular)
  have t: "take (nat 3) popular = [''New York'', ''London'', ''Tokyo'']"
    by (simp add: popular_def)
  from a b t show ?thesis by (simp add: length_popular)
qed

subsection \<open>Locating a city\<close>

lemma find_append:
  "List.find P (xs @ ys) = (case List.find P xs of Some x \<Rightarrow> Some x | None \<Rightarrow> List.find P ys)"
  by (induction xs) auto

lemma find_in_continent:
  "map_option (\<lambda>(continent, country, cs). (continent, country))
       (List.find (holds city) (map (\<lambda>(country, cs). (continent, country, cs)) countries))
   = map_option (Pair continent) (find_country countries city)"
  by (induction countries) (auto simp: holds_def)

lemma find_city_location_first:
  "find_city_location db city =
     (case first_match db city of Some loc \<Rightarrow> loc | None \<Rightarrow> (''Unknown'', ''Unknown''))"
proof (induction db)
  case Nil
  show ?case by (simp add: first_match_def traversal_def)
next
  case (Cons a db)
  obtain continent countries where a: "a = (continent, countries)" by (cases a)
  let ?here = "map (\<lambda>(country, cs). (continent, country, cs)) countries"
  have split: "traversal (a # db) = ?here @ traversal db"
    by (simp add: traversal_def a)
  show ?case
  proof (cases "find_country countries city")
    case None
    then have "List.find (holds city) ?here = None"
      using find_in_continent [of city continent countries] by simp
    then have "first_match (a # db) city = first_match db city"
      by (simp add: first_match_def split find_append)
    with None Cons.IH show ?thesis by (simp add: a)
  next
    case (Some country)
    then obtain e where e: "List.find (holds city) ?here = Some e"
      and loc: "(\<lambda>(continent, country, cs). (continent, country)) e = (continent, country)"
      using find_in_continent [of city continent countries] by auto
    then have "first_match (a # db) city = Some (continent, country)"
      by (simp add: first_match_def split find_append)
    with Some show ?thesis by (simp add: a)
  qed
qed

text \<open>
  Claim C4. When the city occurs in the catalog, \<open>find_city_location\<close> returns the
  continent and country of the first entry, in traversal order, whose city list holds the
  name; when no entry holds it, the result is the pair \<open>("Unknown", "Unknown")\<close>.
\<close>

theorem find_city_location_spec:
  "(\<forall>i < length (traversal db).
       holds city (traversal db ! i) \<and> (\<forall>j < i. \<not> holds city (traversal db ! j))
       \<longrightarrow> find_city_location db city
            = (fst (traversal db ! i), fst (snd (traversal db ! i))))
   \<and> ((\<forall>e \<in> set (traversal db). \<not> holds city e)
       \<longrightarrow> find_city_location db city = (''Unknown'', ''Unknown''))"
proof (intro conjI allI impI)
  fix i
  assume i: "i < length (traversal db)"
    and h: "holds city (traversal db ! i) \<and> (\<forall>j < i. \<not> holds city (traversal db ! j))"
  then have "List.find (holds city) (traversal db) = Some (traversal db ! i)"
    by (auto simp: find_Some_iff)
  then show "find_city_location db city
      = (fst (traversal db ! i), fst (snd (traversal db ! i)))"
    by (simp add: find_city_location_first first_match_def split: prod.splits)
next
  assume "\<forall>e \<in> set (traversal db). \<not> holds city e"
  then have "List.find (holds city) (traversal db) = None"
    by (simp add: find_None_iff)
  then show "find_city_location db city = (''Unknown'', ''Unknown'')"
    by (simp add: find_city_location_first first_match_def)
qed

lemma traversal_cities_length: "length (traversal cities) = 23"
  by (simp add: traversal_def cities_def)

theorem find_city_location_spec_witness:
  "\<not> holds ''London'' (traversal cities ! 0)
   \<and> holds ''London'' (traversal cities ! 1)
   \<and> holds ''London'' (traversal cities ! 7)
   \<and> find_city_location cities ''London'' = (''North America'', ''Canada'')
   \<and> find_city_location cities ''Atlantis'' = (''Unknown'', ''Unknown'')"
proof -
  have e0: "\<not> holds ''London'' (traversal cities ! 0)"
    by (simp add: holds_def traversal_def cities_def)
  have e1: "holds ''London'' (traversal cities ! 1)"
    by (simp add: holds_def traversal_def cities_def)
  have v1: "(fst (traversal cities ! 1), fst (snd (traversal cities ! 1)))
      = (''North America'', ''Canada'')"
    by (simp add: traversal_def cities_def)
  have e7: "holds ''London'' (traversal cities ! 7)"
    by (simp add: holds_def traversal_def cities_def)
  have none: "\<forall>e \<in> set (traversal cities). \<not> holds ''Atlantis'' e"
    by (simp add: holds_def traversal_def cities_def)
  have first: "\<forall>j < (1::nat). \<not> holds ''London'' (traversal cities ! j)"
    using e0 by simp
  have len: "1 < length (traversal cities)"
    by (simp add: traversal_cities_length)
  have "find_city_location cities ''London''
      = (fst (traversal cities ! 1), fst (snd (traversal cities ! 1)))"
    using find_city_location_spec [of cities "''London''"] e1 first len by blast
  then have "find_city_location cities ''London'' = (''North America'', ''Canada'')"
    by (simp only: v1)
  moreover have "find_city_location cities ''Atlantis'' = (''Unknown'', ''Unknown'')"
    using find_city_location_spec [of cities "''Atlantis''"] none by blast
  ultimately show ?thesis using e0 e1 e7 by simp
qed

section \<open>Payloads and faults\<close>

text \<open>
  What \<open>response.json()\<close> returns: dicts, lists, strings, numbers, booleans and \<open>None\<close>
  (\<open>JNull\<close>, which is also the \<open>None\<close> the client returns on a failed fetch). A dict is an
  association list read with \<open>map_of\<close>; a float stands for the rational it denotes, and
  every rendering and arithmetic of numbers is left to the \<open>renderer\<close> below.
\<close>

datatype json =
    JNull
  | JBool bool
  | JInt int
  | JFloat rat
  | JStr string
  | JArr "json list"
  | JObj "(string \<times> json) list"

datatype key = KStr string | KInt int

datatype req_failure = DNSFailure | ConnectionRefused | Timeout | HTTPError nat | OtherRequestFailure

text \<open>
  The exceptions that occur. \<open>RequestException\<close> stands for the base class of the HTTP
  library with all its subclasses (\<open>ConnectionError\<close>, \<open>Timeout\<close>, \<open>HTTPError\<close>, ...);
  \<open>Fault\<close> is any other subclass of \<open>Exception\<close>.
\<close>

datatype exn =
    RequestException req_failure
  | KeyError key
  | IndexError
  | TypeError
  | AttributeError
  | ValueError
  | Fault string

definition and_then :: "exn + 'a \<Rightarrow> ('a \<Rightarrow> exn + 'b) \<Rightarrow> exn + 'b" where
  "and_then m f = (case m of Inl e \<Rightarrow> Inl e | Inr x \<Rightarrow> f x)"

text \<open>Truth value of an object, as \<open>if weather_data:\<close> tests it.\<close>

fun truthy :: "json \<Rightarrow> bool" where
  "truthy JNull = False"
| "truthy (JBool b) = b"
| "truthy (JInt i) = (i \<noteq> 0)"
| "truthy (JFloat r) = (r \<noteq> 0)"
| "truthy (JStr s) = (s \<noteq> [])"
| "truthy (JArr xs) = (xs \<noteq> [])"
| "truthy (JObj kvs) = (kvs \<noteq> [])"

text \<open>
  Subscription \<open>x[k]\<close>. A dict without the key raises \<open>KeyError\<close> (its keys are strings, so
  an integer is never among them); a list takes integers, negative ones counting from the
  end, and raises \<open>IndexError\<close> out of range; a string likewise; the other objects are not
  subscriptable.
\<close>

definition at_index :: "'a list \<Rightarrow> int \<Rightarrow> exn + 'a" where
  "at_index xs i =
     (if 0 \<le> i \<and> i < int (length xs) then Inr (xs ! nat i)
      else if i < 0 \<and> - int (length xs) \<le> i then Inr (xs ! nat (int (length xs) + i))
      else Inl IndexError)"

fun getitem :: "json \<Rightarrow> key \<Rightarrow> exn + json" where
  "getitem (JObj kvs) (KStr k) =
     (case map_of kvs k of Some v \<Rightarrow> Inr v | None \<Rightarrow> Inl (KeyError (KStr k)))"
| "getitem (JObj kvs) (KInt i) = Inl (KeyError (KInt i))"
| "getitem (JArr xs) (KInt i) = at_index xs i"
| "getitem (JArr xs) (KStr k) = Inl TypeError"
| "getitem (JStr s) (KInt i) = and_then (at_index s i) (\<lambda>c. Inr (JStr [c]))"
| "getitem (JStr s) (KStr k) = Inl TypeError"
| "getitem _ _ = Inl TypeError"

text \<open>\<open>x.get(k, default)\<close>: only a dict has the method.\<close>

fun dict_get :: "json \<Rightarrow> string \<Rightarrow> json \<Rightarrow> exn + json" where
  "dict_get (JObj kvs) k dflt = (case map_of kvs k of Some v \<Rightarrow> Inr v | None \<Rightarrow> Inr dflt)"
| "dict_get _ k dflt = Inl AttributeError"

text \<open>\<open>for item in x\<close>: a list gives its elements, a dict its keys, a string its characters.\<close>

fun iterate :: "json \<Rightarrow> exn + json list" where
  "iterate (JArr xs) = Inr xs"
| "iterate (JObj kvs) = Inr (map (\<lambda>(k, v). JStr k) kvs)"
| "iterate (JStr s) = Inr (map (\<lambda>c. JStr [c]) s)"
| "iterate _ = Inl TypeError"

text \<open>\<open>data[a][b]\<close>.\<close>

definition getitem2 :: "json \<Rightarrow> string \<Rightarrow> string \<Rightarrow> exn + json" where
  "getitem2 data a b = and_then (getitem data (KStr a)) (\<lambda>x. getitem x (KStr b))"

fun mapM :: "('a \<Rightarrow> exn + 'b) \<Rightarrow> 'a list \<Rightarrow> exn + 'b list" where
  "mapM f [] = Inr []"
| "mapM f (x # xs) = and_then (f x) (\<lambda>y. and_then (mapM f xs) (\<lambda>ys. Inr (y # ys)))"

text \<open>
  The text of a key inside a message (\<open>repr\<close>): a string in single quotes, an integer in
  decimal. The keys the program reads hold no quote and no escape.
\<close>

fun digits :: "nat \<Rightarrow> string" where
  "digits n =
     (if n < 10 then [''0123456789'' ! n]
      else digits (n div 10) @ [''0123456789'' ! (n mod 10)])"

declare digits.simps [simp del]

definition str_int :: "int \<Rightarrow> string" where
  "str_int i = (if i < 0 then CHR ''-'' # digits (nat (- i)) else digits (nat i))"

fun key_repr :: "key \<Rightarrow> string" where
  "key_repr (KStr k) = [CHR 0x27] @ k @ [CHR 0x27]"
| "key_repr (KInt i) = str_int i"

text \<open>
  Rendering is the business of Python's formatting, of \<open>datetime\<close> and of float arithmetic;
  the program is verified for every such renderer. \<open>str_value\<close> is \<open>f"{v}"\<close>, \<open>fixed n\<close> is
  \<open>f"{v:.nf}"\<close>, \<open>title\<close> is \<open>str.title\<close>, \<open>clock\<close> is
  \<open>datetime.fromtimestamp(v).strftime(fmt)\<close> for the two clock formats, \<open>date_of\<close> is
  \<open>datetime.fromtimestamp(v).date()\<close> (as a day number) and \<open>long_date\<close> its
  \<open>strftime('%A, %B %d, %Y')\<close>; \<open>over_1000\<close> is \<open>v/1000\<close> rendered, \<open>minimum\<close> and
  \<open>maximum\<close> are \<open>min\<close> and \<open>max\<close>, \<open>add\<close> is \<open>+\<close>, \<open>divide_by\<close> is division by a
  length, and \<open>most_common\<close> is \<open>max(set(xs), key=xs.count)\<close>. \<open>exn_text\<close> is \<open>str(e)\<close>.
  The templates take the interpolated texts in the order of their holes.
\<close>

record renderer =
  now :: string
  str_value :: "json \<Rightarrow> string"
  fixed :: "nat \<Rightarrow> json \<Rightarrow> exn + string"
  title :: "string \<Rightarrow> string"
  clock :: "string \<Rightarrow> json \<Rightarrow> exn + string"
  date_of :: "json \<Rightarrow> exn + int"
  long_date :: "int \<Rightarrow> string"
  over_1000 :: "json \<Rightarrow> exn + string"
  minimum :: "json list \<Rightarrow> exn + json"
  maximum :: "json list \<Rightarrow> exn + json"
  add :: "json \<Rightarrow> json \<Rightarrow> exn + json"
  divide_by :: "json \<Rightarrow> nat \<Rightarrow> exn + json"
  most_common :: "json list \<Rightarrow> exn + json"
  exn_text :: "exn \<Rightarrow> string"
  current_template :: "string list \<Rightarrow> string"
  forecast_header :: "string list \<Rightarrow> string"
  day_template :: "string list \<Rightarrow> string"

text \<open>\<open>v.title()\<close>: only a string has the method.\<close>

fun title_of :: "renderer \<Rightarrow> json \<Rightarrow> exn + string" where
  "title_of env (JStr s) = Inr (title env s)"
| "title_of env _ = Inl AttributeError"

section \<open>Weather client\<close>

text \<open>
  The HTTP library is a collaborator. \<open>session.get\<close> either raises (a failed lookup, a
  refused connection, a timeout, too many redirects: all of them \<open>RequestException\<close>s) or
  returns a response; the client is verified for every network. A response carries its
  status code, and its \<open>json()\<close> either raises or returns the decoded document.
  \<open>raise_for_status()\<close> is the library's: it raises \<open>HTTPError\<close>, a
  \<open>RequestException\<close>, exactly for the status codes 400 to 599, and returns for every
  other code.
\<close>

datatype param = PStr string | PInt int

record request =
  url :: string
  params :: "(string \<times> param) list"
  timeout :: "nat option"

record response =
  status_code :: nat
  decoded :: "exn + json"

type_synonym network = "request \<Rightarrow> exn + response"

definition raise_for_status :: "response \<Rightarrow> exn option" where
  "raise_for_status resp =
     (if 400 \<le> status_code resp \<and> status_code resp < 600
      then Some (RequestException (HTTPError (status_code resp)))
      else None)"

definition base_url :: string where
  "base_url = ''https://api.openweathermap.org/data/2.5''"

text \<open>The three calls inside each \<open>try\<close>: get, \<open>raise_for_status\<close>, \<open>json\<close>.\<close>

definition transact :: "network \<Rightarrow> request \<Rightarrow> exn + json" where
  "transact net req =
     and_then (net req) (\<lambda>resp.
       case raise_for_status resp of Some e \<Rightarrow> Inl e | None \<Rightarrow> decoded resp)"

text \<open>\<open>except requests.exceptions.RequestException: return None\<close>; anything else propagates.\<close>

fun none_on_request_exception :: "exn + json \<Rightarrow> exn + json" where
  "none_on_request_exception (Inl (RequestException f)) = Inr JNull"
| "none_on_request_exception r = r"

subsection \<open>The GUI's client (WeatherAPI)\<close>

definition weather_request :: "string \<Rightarrow> string \<Rightarrow> request" where
  "weather_request api_key city =
     \<lparr>url = base_url @ ''/weather'',
      params = [(''q'', PStr city), (''appid'', PStr api_key), (''units'', PStr ''metric'')],
      timeout = Some 10\<rparr>"

definition get_weather_data :: "string \<Rightarrow> network \<Rightarrow> string \<Rightarrow> exn + json" where
  "get_weather_data api_key net city =
     none_on_request_exception (transact net (weather_request api_key city))"

definition forecast_request :: "string \<Rightarrow> string \<Rightarrow> int \<Rightarrow> request" where
  "forecast_request api_key city days =
     \<lparr>url = base_url @ ''/forecast'',
      params = [(''q'', PStr city), (''appid'', PStr api_key), (''units'', PStr ''metric''),
                (''cnt'', PInt (days * 8))],
      timeout = Some 10\<rparr>"

definition get_forecast_data :: "string \<Rightarrow> network \<Rightarrow> string \<Rightarrow> int \<Rightarrow> exn + json" where
  "get_forecast_data api_key net city days =
     none_on_request_exception (transact net (forecast_request api_key city days))"

definition default_days :: int where
  "default_days = 5"

subsection \<open>The web page's client (IntegratedWeatherDashboard)\<close>

text \<open>
  Its \<open>get_forecast_data(city)\<close> has no day count, sends no \<open>cnt\<close> and no timeout, and
  returns the empty dict on a \<open>RequestException\<close> (after printing it).
\<close>

definition web_forecast_request :: "string \<Rightarrow> string \<Rightarrow> request" where
  "web_forecast_request api_key city =
     \<lparr>url = base_url @ ''/forecast'',
      params = [(''q'', PStr city), (''appid'', PStr api_key), (''units'', PStr ''metric'')],
      timeout = None\<rparr>"

fun empty_on_request_exception :: "exn + json \<Rightarrow> exn + json" where
  "empty_on_request_exception (Inl (RequestException f)) = Inr (JObj [])"
| "empty_on_request_exception r = r"

definition web_get_forecast_data :: "string \<Rightarrow> network \<Rightarrow> string \<Rightarrow> exn + json" where
  "web_get_forecast_data api_key net city =
     empty_on_request_exception (transact net (web_forecast_request api_key city))"

section \<open>Formatting\<close>

definition description_of :: "json \<Rightarrow> exn + json" where
  "description_of item =
     and_then (getitem item (KStr ''weather'')) (\<lambda>w.
     and_then (getitem w (KInt 0)) (\<lambda>w0. getitem w0 (KStr ''description'')))"

text \<open>\<open>visibility/1000 if visibility != 'N/A' else 'N/A'\<close>.\<close>

definition visibility_km :: "renderer \<Rightarrow> json \<Rightarrow> exn + string" where
  "visibility_km env v = (if v \<noteq> JStr ''N/A'' then over_1000 env v else Inr ''N/A'')"

text \<open>The body of the \<open>try\<close> of \<open>format_current_weather\<close>, statement by statement.\<close>

definition current_weather_body :: "renderer \<Rightarrow> json \<Rightarrow> exn + string" where
  "current_weather_body env data =
     and_then (getitem data (KStr ''name'')) (\<lambda>city.
     and_then (getitem2 data ''sys'' ''country'') (\<lambda>country.
     and_then (getitem2 data ''main'' ''temp'') (\<lambda>temp.
     and_then (getitem2 data ''main'' ''feels_like'') (\<lambda>feels_like.
     and_then (getitem2 data ''main'' ''humidity'') (\<lambda>humidity.
     and_then (getitem2 data ''main'' ''pressure'') (\<lambda>pressure.
     and_then (and_then (description_of data) (title_of env)) (\<lambda>description.
     and_then (getitem2 data ''wind'' ''speed'') (\<lambda>wind_speed.
     and_then (and_then (getitem data (KStr ''wind'')) (\<lambda>w. dict_get w ''deg'' (JInt 0)))
       (\<lambda>wind_deg.
     and_then (dict_get data ''visibility'' (JStr ''N/A'')) (\<lambda>visibility.
     and_then (and_then (getitem2 data ''sys'' ''sunrise'') (clock env ''%H:%M:%S''))
       (\<lambda>sunrise.
     and_then (and_then (getitem2 data ''sys'' ''sunset'') (clock env ''%H:%M:%S''))
       (\<lambda>sunset.
     and_then (visibility_km env visibility) (\<lambda>km.
       Inr (current_template env
         [str_value env city, str_value env country, now env, str_value env temp,
          str_value env feels_like, description, str_value env humidity,
          str_value env pressure, km, str_value env wind_speed, str_value env wind_deg,
          sunrise, sunset]))))))))))))))"

text \<open>\<open>except KeyError as e: return f"Error formatting ...: Missing key {e}"\<close>.\<close>

fun missing_key_text :: "string \<Rightarrow> exn + string \<Rightarrow> exn + string" where
  "missing_key_text what (Inl (KeyError k)) =
     Inr (''Error formatting '' @ what @ '' data: Missing key '' @ key_repr k)"
| "missing_key_text what r = r"

definition format_current_weather :: "renderer \<Rightarrow> json \<Rightarrow> exn + string" where
  "format_current_weather env data = missing_key_text ''weather'' (current_weather_body env data)"

text \<open>
  \<open>format_forecast\<close>: the samples are grouped by calendar day in a dict (here an
  association list in insertion order), and the first five days are summarised.
\<close>

definition add_to_day :: "int \<Rightarrow> json \<Rightarrow> (int \<times> json list) list \<Rightarrow> (int \<times> json list) list" where
  "add_to_day date item daily =
     (if date \<in> fst ` set daily
      then map (\<lambda>(d, fs). if d = date then (d, fs @ [item]) else (d, fs)) daily
      else daily @ [(date, [item])])"

fun group_days :: "renderer \<Rightarrow> json list \<Rightarrow> (int \<times> json list) list \<Rightarrow> exn + (int \<times> json list) list" where
  "group_days env [] daily = Inr daily"
| "group_days env (item # items) daily =
     and_then (and_then (getitem item (KStr ''dt'')) (date_of env)) (\<lambda>date.
       group_days env items (add_to_day date item daily))"

text \<open>\<open>sum(f[..] for f in forecasts)\<close>: each term is read and added before the next.\<close>

fun py_sum :: "renderer \<Rightarrow> (json \<Rightarrow> exn + json) \<Rightarrow> json list \<Rightarrow> json \<Rightarrow> exn + json" where
  "py_sum env f [] acc = Inr acc"
| "py_sum env f (x # xs) acc =
     and_then (f x) (\<lambda>v. and_then (add env acc v) (\<lambda>acc'. py_sum env f xs acc'))"

definition hourly_line :: "renderer \<Rightarrow> json \<Rightarrow> exn + string" where
  "hourly_line env forecast =
     and_then (and_then (getitem forecast (KStr ''dt'')) (clock env ''%H:%M'')) (\<lambda>time.
     and_then (getitem2 forecast ''main'' ''temp'') (\<lambda>temp.
     and_then (and_then (description_of forecast) (title_of env)) (\<lambda>desc.
       Inr (''  '' @ time @ '': '' @ str_value env temp @ [CHR 0xB0] @ ''C, '' @ desc
            @ [CHR 0x0A]))))"

definition day_section :: "renderer \<Rightarrow> int \<times> json list \<Rightarrow> exn + string" where
  "day_section env day =
     (let date = fst day; forecasts = snd day in
      and_then (mapM (\<lambda>f. getitem2 f ''main'' ''temp'') forecasts) (\<lambda>temps.
      and_then (minimum env temps) (\<lambda>min_temp.
      and_then (maximum env temps) (\<lambda>max_temp.
      and_then (mapM description_of forecasts) (\<lambda>conditions.
      and_then (and_then (most_common env conditions) (title_of env)) (\<lambda>condition.
      and_then (and_then (py_sum env (\<lambda>f. getitem2 f ''main'' ''humidity'') forecasts (JInt 0))
                 (\<lambda>total. divide_by env total (length forecasts))) (\<lambda>avg_humidity.
      and_then (and_then (py_sum env (\<lambda>f. getitem2 f ''main'' ''pressure'') forecasts (JInt 0))
                 (\<lambda>total. divide_by env total (length forecasts))) (\<lambda>avg_pressure.
      and_then (fixed env 1 min_temp) (\<lambda>lo.
      and_then (fixed env 1 max_temp) (\<lambda>hi.
      and_then (fixed env 0 avg_humidity) (\<lambda>hum.
      and_then (fixed env 0 avg_pressure) (\<lambda>pres.
      and_then (mapM (hourly_line env) (take 4 forecasts)) (\<lambda>lines.
        Inr (day_template env [long_date env date, lo, hi, condition, hum, pres]
             @ concat lines @ [CHR 0x0A]))))))))))))))"

definition forecast_body :: "renderer \<Rightarrow> json \<Rightarrow> exn + string" where
  "forecast_body env data =
     and_then (getitem2 data ''city'' ''name'') (\<lambda>city.
     and_then (getitem2 data ''city'' ''country'') (\<lambda>country.
     and_then (and_then (getitem data (KStr ''list'')) iterate) (\<lambda>items.
     and_then (group_days env items []) (\<lambda>daily.
     and_then (mapM (day_section env) (take 5 daily)) (\<lambda>days.
       Inr (forecast_header env [str_value env city, str_value env country, now env]
            @ concat days))))))"

definition format_forecast :: "renderer \<Rightarrow> json \<Rightarrow> exn + string" where
  "format_forecast env data = missing_key_text ''forecast'' (forecast_body env data)"

section \<open>Asynchronous fetch coordinator (WeatherDashboardGUI)\<close>

text \<open>
  The tuples \<open>(message_type, data, city)\<close> the workers put on the queue. The queue is a
  FIFO: \<open>put\<close> appends at the end, \<open>get_nowait\<close> takes the head or raises \<open>queue.Empty\<close>.
\<close>

datatype message =
    CurrentWeather json string
  | Forecast json string
  | Comparison "(string \<times> json) list"
  | ErrorMsg string string

subsection \<open>Workers\<close>

text \<open>
  Each worker runs on a thread of its own; its only effect is the message it puts. The
  result is \<open>Inl\<close> when an exception leaves the worker.
\<close>

definition fetch_current_weather ::
    "renderer \<Rightarrow> string \<Rightarrow> network \<Rightarrow> string \<Rightarrow> message list \<Rightarrow> exn + message list" where
  "fetch_current_weather env api_key net city queue =
     (case get_weather_data api_key net city of
        Inr weather_data \<Rightarrow> Inr (queue @ [CurrentWeather weather_data city])
      | Inl e \<Rightarrow> Inr (queue @ [ErrorMsg (exn_text env e) city]))"

definition fetch_forecast ::
    "renderer \<Rightarrow> string \<Rightarrow> network \<Rightarrow> string \<Rightarrow> message list \<Rightarrow> exn + message list" where
  "fetch_forecast env api_key net city queue =
     (case get_forecast_data api_key net city default_days of
        Inr forecast_data \<Rightarrow> Inr (queue @ [Forecast forecast_data city])
      | Inl e \<Rightarrow> Inr (queue @ [ErrorMsg (exn_text env e) city]))"

text \<open>
  The comparison worker asks for its cities one after the other; a city whose data is
  falsy is skipped, and so is one whose fetch raised (the exception is printed).
\<close>

fun comparison_results :: "string \<Rightarrow> network \<Rightarrow> string list \<Rightarrow> (string \<times> json) list" where
  "comparison_results api_key net [] = []"
| "comparison_results api_key net (city # rest) =
     (case get_weather_data api_key net city of
        Inr weather_data \<Rightarrow>
          (if truthy weather_data
           then (city, weather_data) # comparison_results api_key net rest
           else comparison_results api_key net rest)
      | Inl e \<Rightarrow> comparison_results api_key net rest)"

definition fetch_comparison_data ::
    "string \<Rightarrow> network \<Rightarrow> string list \<Rightarrow> message list \<Rightarrow> exn + message list" where
  "fetch_comparison_data api_key net cs queue =
     Inr (queue @ [Comparison (comparison_results api_key net cs)])"

subsection \<open>The owner thread's state\<close>

text \<open>
  The widgets the handlers write: the two text panes, the rows of the comparison table,
  the status line, the stored current payload, the message boxes shown, and the number of
  \<open>root.after(100, self.process_queue)\<close> calls made. The chart routines catch every
  exception themselves and write none of these, so they are left out.
\<close>

type_synonym row = "string \<times> string \<times> string \<times> string \<times> string"

record ui =
  weather_text :: string
  forecast_text :: string
  comparison_tree :: "row list"
  status_var :: string
  current_weather_data :: json
  dialogs :: "(string \<times> string) list"
  polls_scheduled :: nat

text \<open>A handler returns the state it leaves and the exception it raised, if any.\<close>

definition display_current_weather :: "renderer \<Rightarrow> json \<Rightarrow> string \<Rightarrow> ui \<Rightarrow> ui \<times> exn option" where
  "display_current_weather env weather_data city u =
     (let u1 = u\<lparr>weather_text := []\<rparr> in
      if \<not> truthy weather_data
      then (u1\<lparr>weather_text := ''Error: Could not fetch weather data for '' @ city @ [CHR 0x0A],
               status_var := ''Error fetching weather data''\<rparr>, None)
      else
        (let u2 = u1\<lparr>current_weather_data := weather_data\<rparr> in
         case format_current_weather env weather_data of
           Inl e \<Rightarrow> (u2, Some e)
         | Inr weather_info \<Rightarrow>
             (u2\<lparr>weather_text := weather_info,
                 status_var := ''Weather data loaded for '' @ city\<rparr>, None)))"

definition display_forecast :: "renderer \<Rightarrow> json \<Rightarrow> string \<Rightarrow> ui \<Rightarrow> ui \<times> exn option" where
  "display_forecast env forecast_data city u =
     (let u1 = u\<lparr>forecast_text := []\<rparr> in
      if \<not> truthy forecast_data
      then (u1\<lparr>forecast_text := ''Error: Could not fetch forecast data for '' @ city @ [CHR 0x0A],
               status_var := ''Error fetching forecast data''\<rparr>, None)
      else
        (case format_forecast env forecast_data of
           Inl e \<Rightarrow> (u1, Some e)
         | Inr forecast_info \<Rightarrow>
             (u1\<lparr>forecast_text := forecast_info,
                 status_var := ''Forecast data loaded for '' @ city\<rparr>, None)))"

text \<open>One row of the comparison table; nothing here catches an exception.\<close>

definition comparison_row :: "renderer \<Rightarrow> string \<times> json \<Rightarrow> exn + row" where
  "comparison_row env result =
     (let city = fst result; data = snd result in
      and_then (and_then (getitem2 data ''main'' ''temp'') (fixed env 1)) (\<lambda>temp.
      and_then (getitem2 data ''main'' ''humidity'') (\<lambda>humidity.
      and_then (getitem2 data ''main'' ''pressure'') (\<lambda>pressure.
      and_then (and_then (description_of data) (title_of env)) (\<lambda>condition.
        Inr (city, temp @ [CHR 0xB0] @ ''C'', str_value env humidity @ ''%'',
             str_value env pressure @ '' hPa'', condition))))))"

fun insert_rows :: "renderer \<Rightarrow> (string \<times> json) list \<Rightarrow> ui \<Rightarrow> ui \<times> exn option" where
  "insert_rows env [] u = (u, None)"
| "insert_rows env (result # rest) u =
     (case comparison_row env result of
        Inl e \<Rightarrow> (u, Some e)
      | Inr r \<Rightarrow> insert_rows env rest (u\<lparr>comparison_tree := comparison_tree u @ [r]\<rparr>))"

definition display_comparison :: "renderer \<Rightarrow> (string \<times> json) list \<Rightarrow> ui \<Rightarrow> ui \<times> exn option" where
  "display_comparison env results u =
     (if results = []
      then (u\<lparr>dialogs := dialogs u
                @ [(''Warning'', ''No weather data could be retrieved for comparison'')]\<rparr>, None)
      else
        (case insert_rows env results (u\<lparr>comparison_tree := []\<rparr>) of
           (u1, Some e) \<Rightarrow> (u1, Some e)
         | (u1, None) \<Rightarrow>
             (u1\<lparr>status_var := ''Comparison complete for ''
                    @ str_int (int (length results)) @ '' cities''\<rparr>, None)))"

subsection \<open>The poll\<close>

fun dispatch :: "renderer \<Rightarrow> message \<Rightarrow> ui \<Rightarrow> ui \<times> exn option" where
  "dispatch env (CurrentWeather data city) u = display_current_weather env data city u"
| "dispatch env (Forecast data city) u = display_forecast env data city u"
| "dispatch env (Comparison data) u = display_comparison env data u"
| "dispatch env (ErrorMsg data city) u =
     (u\<lparr>dialogs := dialogs u
          @ [(''Error'', ''Error fetching weather data for '' @ city @ '': '' @ data)],
        status_var := ''Error occurred''\<rparr>, None)"

text \<open>
  \<open>while True:\<close> take the head and dispatch it, until \<open>get_nowait\<close> raises
  \<open>queue.Empty\<close>, the one exception the loop catches. An exception of a handler leaves the
  loop with the rest of the queue untouched.
\<close>

fun drain :: "renderer \<Rightarrow> ui \<Rightarrow> message list \<Rightarrow> ui \<times> message list \<times> exn option" where
  "drain env u [] = (u, [], None)"
| "drain env u (m # queue) =
     (case dispatch env m u of
        (u1, Some e) \<Rightarrow> (u1, queue, Some e)
      | (u1, None) \<Rightarrow> drain env u1 queue)"

text \<open>
  \<open>process_queue\<close>: the loop, then \<open>self.root.after(100, self.process_queue)\<close>, which an
  exception that left the loop never reaches.
\<close>

definition process_queue :: "renderer \<Rightarrow> ui \<times> message list \<Rightarrow> ui \<times> message list \<times> exn option" where
  "process_queue env state =
     (case drain env (fst state) (snd state) of
        (u, queue, Some e) \<Rightarrow> (u, queue, Some e)
      | (u, queue, None) \<Rightarrow> (u\<lparr>polls_scheduled := polls_scheduled u + 1\<rparr>, queue, None))"

subsection \<open>The comparison set\<close>

text \<open>
  The listbox of cities to compare. \<open>add_comparison_city\<close> takes what the selection dialog
  returned (\<open>None\<close> on cancel), \<open>remove_comparison_city\<close> the current selection of the
  listbox (a tuple of indices, possibly empty).
\<close>

definition add_comparison_city :: "string option \<Rightarrow> string list \<Rightarrow> string list" where
  "add_comparison_city selected_city listbox =
     (case selected_city of
        None \<Rightarrow> listbox
      | Some city \<Rightarrow>
          (if city = [] then listbox
           else if city \<notin> set listbox then listbox @ [city]
           else listbox))"

definition remove_comparison_city :: "nat list \<Rightarrow> string list \<Rightarrow> string list" where
  "remove_comparison_city selection listbox =
     (case selection of
        [] \<Rightarrow> listbox
      | i # _ \<Rightarrow> take i listbox @ drop (Suc i) listbox)"

definition clear_comparison_cities :: "string list \<Rightarrow> string list" where
  "clear_comparison_cities listbox = []"

text \<open>The states the listbox can be in: empty at start, then changed by the three buttons.\<close>

inductive comparison_set :: "string list \<Rightarrow> bool" where
  start: "comparison_set []"
| added: "comparison_set xs \<Longrightarrow> comparison_set (add_comparison_city sel xs)"
| removed: "comparison_set xs \<Longrightarrow> comparison_set (remove_comparison_city is xs)"
| cleared: "comparison_set xs \<Longrightarrow> comparison_set (clear_comparison_cities xs)"

section \<open>Fixtures for the examples\<close>

text \<open>
  A mock renderer and a mock network, used only to evaluate the examples below: the
  renderer prints integers in decimal and title-cases ASCII words, and joins the texts of
  a template line by line; the network answers for three cities.
\<close>

definition ascii_upper :: "char \<Rightarrow> char" where
  "ascii_upper c =
     (case map_of (zip ''abcdefghijklmnopqrstuvwxyz'' ''ABCDEFGHIJKLMNOPQRSTUVWXYZ'') c of
        Some C \<Rightarrow> C | None \<Rightarrow> c)"

definition ascii_lower :: "char \<Rightarrow> char" where
  "ascii_lower c =
     (case map_of (zip ''ABCDEFGHIJKLMNOPQRSTUVWXYZ'' ''abcdefghijklmnopqrstuvwxyz'') c of
        Some C \<Rightarrow> C | None \<Rightarrow> c)"

definition ascii_letter :: "char \<Rightarrow> bool" where
  "ascii_letter c = (ascii_upper c \<noteq> c \<or> ascii_lower c \<noteq> c)"

fun ascii_title :: "bool \<Rightarrow> string \<Rightarrow> string" where
  "ascii_title inside [] = []"
| "ascii_title inside (c # cs) =
     (if ascii_letter c
      then (if inside then ascii_lower c else ascii_upper c) # ascii_title True cs
      else c # ascii_title False cs)"

fun mock_number :: "json \<Rightarrow> exn + int" where
  "mock_number (JInt i) = Inr i"
| "mock_number (JBool b) = Inr (if b then 1 else 0)"
| "mock_number (JFloat r) = Inr \<lfloor>r\<rfloor>"
| "mock_number _ = Inl TypeError"

fun mock_str :: "json \<Rightarrow> string" where
  "mock_str (JStr s) = s"
| "mock_str (JInt i) = str_int i"
| "mock_str JNull = ''None''"
| "mock_str (JBool b) = (if b then ''True'' else ''False'')"
| "mock_str _ = ''...''"

fun mock_fold :: "(int \<Rightarrow> int \<Rightarrow> int) \<Rightarrow> json list \<Rightarrow> exn + json" where
  "mock_fold f [] = Inl ValueError"
| "mock_fold f [x] = and_then (mock_number x) (\<lambda>i. Inr (JInt i))"
| "mock_fold f (x # y # ys) =
     and_then (mock_number x) (\<lambda>i.
     and_then (mock_fold f (y # ys)) (\<lambda>r.
     and_then (mock_number r) (\<lambda>j. Inr (JInt (f i j)))))"

definition mock_lines :: "string list \<Rightarrow> string" where
  "mock_lines texts = concat (map (\<lambda>t. t @ [CHR 0x0A]) texts)"

definition mock_renderer :: renderer where
  "mock_renderer =
     \<lparr>now = ''2024-01-01 12:00:00'',
      str_value = mock_str,
      fixed = (\<lambda>n v. and_then (mock_number v)
                 (\<lambda>i. Inr (str_int i @ (if n = 0 then [] else CHR ''.'' # replicate n CHR ''0'')))),
      title = ascii_title False,
      clock = (\<lambda>fmt v. and_then (mock_number v) (\<lambda>i. Inr (str_int i))),
      date_of = (\<lambda>v. and_then (mock_number v) (\<lambda>i. Inr (i div 86400))),
      long_date = str_int,
      over_1000 = (\<lambda>v. and_then (mock_number v) (\<lambda>i. Inr (str_int (i div 1000)))),
      minimum = mock_fold min,
      maximum = mock_fold max,
      add = (\<lambda>a b. and_then (mock_number a) (\<lambda>i. and_then (mock_number b) (\<lambda>j. Inr (JInt (i + j))))),
      divide_by = (\<lambda>a n. and_then (mock_number a) (\<lambda>i. Inr (JInt (i div int n)))),
      most_common = (\<lambda>xs. case xs of [] \<Rightarrow> Inl ValueError | x # _ \<Rightarrow> Inr x),
      exn_text = (\<lambda>e. ''exception''),
      current_template = mock_lines,
      forecast_header = mock_lines,
      day_template = mock_lines\<rparr>"

definition weather_payload :: "string \<Rightarrow> int \<Rightarrow> json" where
  "weather_payload name temp =
     JObj [(''name'', JStr name),
           (''sys'', JObj [(''country'', JStr ''XX''), (''sunrise'', JInt 21600),
                           (''sunset'', JInt 64800)]),
           (''main'', JObj [(''temp'', JInt temp), (''feels_like'', JInt (temp - 2)),
                            (''humidity'', JInt 55), (''pressure'', JInt 1012)]),
           (''weather'', JArr [JObj [(''description'', JStr ''clear sky'')]]),
           (''wind'', JObj [(''speed'', JInt 3)])]"

definition forecast_payload :: json where
  "forecast_payload =
     JObj [(''city'', JObj [(''name'', JStr ''Rome''), (''country'', JStr ''IT'')]),
           (''list'', JArr [JObj [(''dt'', JInt 0),
                                  (''main'', JObj [(''temp'', JInt 21), (''humidity'', JInt 55),
                                                   (''pressure'', JInt 1012)]),
                                  (''weather'', JArr [JObj [(''description'', JStr ''clear sky'')]])]])]"

text \<open>
  The request for Paris times out and the one for Cairo is answered with status 404; the
  forecast for Rome and the current weather of Tokyo and Rome are answered with status 200
  and a payload; every other request is answered with status 404.
\<close>

definition mock_network :: network where
  "mock_network req =
     (if map_of (params req) ''q'' = Some (PStr ''Paris'')
      then Inl (RequestException Timeout)
      else if map_of (params req) ''q'' = Some (PStr ''Rome'') \<and> url req = base_url @ ''/forecast''
      then Inr \<lparr>status_code = 200, decoded = Inr forecast_payload\<rparr>
      else if map_of (params req) ''q'' = Some (PStr ''Tokyo'')
      then Inr \<lparr>status_code = 200, decoded = Inr (weather_payload ''Tokyo'' 4)\<rparr>
      else if map_of (params req) ''q'' = Some (PStr ''Rome'')
      then Inr \<lparr>status_code = 200, decoded = Inr (weather_payload ''Rome'' 21)\<rparr>
      else Inr \<lparr>status_code = 404, decoded = Inr (JObj [(''cod'', JStr ''404'')])\<rparr>)"

definition initial_ui :: ui where
  "initial_ui =
     \<lparr>weather_text = [], forecast_text = [], comparison_tree = [], status_var = ''Ready'',
      current_weather_data = JObj [], dialogs = [], polls_scheduled = 0\<rparr>"

section \<open>Properties of the weather client\<close>

lemma and_then_simps [simp]:
  "and_then (Inl e) f = Inl e" "and_then (Inr x) f = f x"
  by (simp_all add: and_then_def)

lemma transact_get_raises: "net req = Inl e \<Longrightarrow> transact net req = Inl e"
  by (simp add: transact_def)

lemma transact_status_raises:
  "net req = Inr resp \<Longrightarrow> raise_for_status resp = Some e \<Longrightarrow> transact net req = Inl e"
  by (simp add: transact_def)

lemma transact_json_raises:
  "net req = Inr resp \<Longrightarrow> raise_for_status resp = None \<Longrightarrow> decoded resp = Inl e
   \<Longrightarrow> transact net req = Inl e"
  by (simp add: transact_def)

text \<open>
  Claim C5, as the code has it. The GUI's client builds the forecast request with
  \<open>cnt = days * 8\<close> for every city and day count, which is 40 for the default of five days
  that the forecast worker uses; that request is the one handed to the network. The web
  page's client has no day count and its forecast request carries no \<open>cnt\<close> at all.
\<close>

theorem forecast_request_count:
  "map_of (params (forecast_request api_key city days)) ''cnt'' = Some (PInt (days * 8))
   \<and> map_of (params (forecast_request api_key city default_days)) ''cnt'' = Some (PInt 40)
   \<and> get_forecast_data api_key net city days
       = none_on_request_exception (transact net (forecast_request api_key city days))
   \<and> map_of (params (web_forecast_request api_key city)) ''cnt'' = None
   \<and> web_get_forecast_data api_key net city
       = empty_on_request_exception (transact net (web_forecast_request api_key city))"
  by (simp add: forecast_request_def default_days_def web_forecast_request_def
      get_forecast_data_def web_get_forecast_data_def)

text \<open>
  The claim as stated fails on the web page's forecast fetch: its request for Paris has no
  item count, whatever the day count.
\<close>

theorem forecast_request_count_counterexample:
  "\<not> (\<exists>days. map_of (params (web_forecast_request ''key'' ''Paris'')) ''cnt''
                 = Some (PInt (days * 8)))"
  by (simp add: web_forecast_request_def)

section \<open>Properties of the coordinator\<close>

lemma get_weather_data_cases:
  "get_weather_data api_key net city =
     (case net (weather_request api_key city) of
        Inl e \<Rightarrow> (case e of RequestException f \<Rightarrow> Inr JNull | _ \<Rightarrow> Inl e)
      | Inr resp \<Rightarrow>
          if 400 \<le> status_code resp \<and> status_code resp < 600 then Inr JNull
          else (case decoded resp of
                  Inl e \<Rightarrow> (case e of RequestException f \<Rightarrow> Inr JNull | _ \<Rightarrow> Inl e)
                | Inr d \<Rightarrow> Inr d))"
  by (simp add: get_weather_data_def transact_def raise_for_status_def
      split: sum.splits exn.splits)

lemma get_forecast_data_cases:
  "get_forecast_data api_key net city days =
     (case net (forecast_request api_key city days) of
        Inl e \<Rightarrow> (case e of RequestException f \<Rightarrow> Inr JNull | _ \<Rightarrow> Inl e)
      | Inr resp \<Rightarrow>
          if 400 \<le> status_code resp \<and> status_code resp < 600 then Inr JNull
          else (case decoded resp of
                  Inl e \<Rightarrow> (case e of RequestException f \<Rightarrow> Inr JNull | _ \<Rightarrow> Inl e)
                | Inr d \<Rightarrow> Inr d))"
  by (simp add: get_forecast_data_def transact_def raise_for_status_def
      split: sum.splits exn.splits)

lemma dispatch_current_failure:
  "dispatch env (CurrentWeather JNull city) u =
     (u\<lparr>weather_text := ''Error: Could not fetch weather data for '' @ city @ [CHR 0x0A],
        status_var := ''Error fetching weather data''\<rparr>, None)"
  by (simp add: display_current_weather_def)

lemma dispatch_forecast_failure:
  "dispatch env (Forecast JNull city) u =
     (u\<lparr>forecast_text := ''Error: Could not fetch forecast data for '' @ city @ [CHR 0x0A],
        status_var := ''Error fetching forecast data''\<rparr>, None)"
  by (simp add: display_forecast_def)

lemma dispatch_current_success:
  "truthy d \<Longrightarrow> format_current_weather env d = Inr info \<Longrightarrow>
   dispatch env (CurrentWeather d city) u =
     (u\<lparr>weather_text := info, status_var := ''Weather data loaded for '' @ city,
        current_weather_data := d\<rparr>, None)"
  by (simp add: display_current_weather_def)

lemma dispatch_forecast_success:
  "truthy d \<Longrightarrow> format_forecast env d = Inr info \<Longrightarrow>
   dispatch env (Forecast d city) u =
     (u\<lparr>forecast_text := info, status_var := ''Forecast data loaded for '' @ city\<rparr>, None)"
  by (simp add: display_forecast_def)

text \<open>
  When no handler raises, one run of the loop applies the handlers to the queued messages
  in FIFO order, each once, and leaves the queue empty; \<open>process_queue\<close> then reschedules.
\<close>

lemma drain_all:
  assumes "\<forall>m \<in> set queue. \<forall>u'. snd (dispatch env m u') = None"
  shows "drain env u queue = (foldl (\<lambda>u m. fst (dispatch env m u)) u queue, [], None)"
  using assms
proof (induction queue arbitrary: u)
  case Nil
  show ?case by simp
next
  case (Cons m queue)
  then have "snd (dispatch env m u) = None" by simp
  then obtain u1 where "dispatch env m u = (u1, None)"
    by (cases "dispatch env m u") simp
  with Cons show ?case by simp
qed

lemma process_queue_all:
  assumes "\<forall>m \<in> set queue. \<forall>u'. snd (dispatch env m u') = None"
  shows "process_queue env (u, queue) =
     ((foldl (\<lambda>u m. fst (dispatch env m u)) u queue)
        \<lparr>polls_scheduled := polls_scheduled (foldl (\<lambda>u m. fst (dispatch env m u)) u queue) + 1\<rparr>,
      [], None)"
  by (simp add: process_queue_def drain_all [OF assms])

text \<open>
  Claim C6, as the code has it. Both fetches return \<open>None\<close> for every \<open>RequestException\<close>,
  whatever its kind: one raised by \<open>session.get\<close> (DNS, refused connection, timeout), the
  \<open>HTTPError\<close> of \<open>raise_for_status\<close> for a status from 400 to 599, or one raised by
  \<open>json()\<close>. A response with any other status whose body decodes is returned as the
  payload, also when the status is not a 2xx one; any other exception propagates to the
  worker. The worker never lets a fault out: it puts exactly one message, the result when
  the fetch returned and an error message when it raised. The poll shows a \<open>None\<close> result
  as an error text and a fetched payload as its report, for current weather and for
  forecast alike; when no handler raises it applies every queued message in order, empties
  the queue and reschedules, so a failure in the queue does not keep a success behind it
  from being shown.
\<close>

theorem transport_failure_collapses:
  "get_weather_data api_key net city =
     (case net (weather_request api_key city) of
        Inl e \<Rightarrow> (case e of RequestException f \<Rightarrow> Inr JNull | _ \<Rightarrow> Inl e)
      | Inr resp \<Rightarrow>
          if 400 \<le> status_code resp \<and> status_code resp < 600 then Inr JNull
          else (case decoded resp of
                  Inl e \<Rightarrow> (case e of RequestException f \<Rightarrow> Inr JNull | _ \<Rightarrow> Inl e)
                | Inr d \<Rightarrow> Inr d))
   \<and> get_forecast_data api_key net city days =
     (case net (forecast_request api_key city days) of
        Inl e \<Rightarrow> (case e of RequestException f \<Rightarrow> Inr JNull | _ \<Rightarrow> Inl e)
      | Inr resp \<Rightarrow>
          if 400 \<le> status_code resp \<and> status_code resp < 600 then Inr JNull
          else (case decoded resp of
                  Inl e \<Rightarrow> (case e of RequestException f \<Rightarrow> Inr JNull | _ \<Rightarrow> Inl e)
                | Inr d \<Rightarrow> Inr d))
   \<and> (net (weather_request api_key city) = Inl (RequestException f)
      \<longrightarrow> get_weather_data api_key net city = Inr JNull)
   \<and> (net (forecast_request api_key city days) = Inl (RequestException f)
      \<longrightarrow> get_forecast_data api_key net city days = Inr JNull)
   \<and> (\<forall>resp. net (weather_request api_key city) = Inr resp
          \<and> 400 \<le> status_code resp \<and> status_code resp < 600
      \<longrightarrow> get_weather_data api_key net city = Inr JNull)
   \<and> (\<forall>resp. net (forecast_request api_key city days) = Inr resp
          \<and> 400 \<le> status_code resp \<and> status_code resp < 600
      \<longrightarrow> get_forecast_data api_key net city days = Inr JNull)
   \<and> fetch_current_weather env api_key net city queue =
       Inr (queue @ [case get_weather_data api_key net city of
                       Inr d \<Rightarrow> CurrentWeather d city
                     | Inl e \<Rightarrow> ErrorMsg (exn_text env e) city])
   \<and> fetch_forecast env api_key net city queue =
       Inr (queue @ [case get_forecast_data api_key net city 5 of
                       Inr d \<Rightarrow> Forecast d city
                     | Inl e \<Rightarrow> ErrorMsg (exn_text env e) city])
   \<and> dispatch env (CurrentWeather JNull city) u =
       (u\<lparr>weather_text := ''Error: Could not fetch weather data for '' @ city @ [CHR 0x0A],
          status_var := ''Error fetching weather data''\<rparr>, None)
   \<and> dispatch env (Forecast JNull city) u =
       (u\<lparr>forecast_text := ''Error: Could not fetch forecast data for '' @ city @ [CHR 0x0A],
          status_var := ''Error fetching forecast data''\<rparr>, None)
   \<and> dispatch env (ErrorMsg text city) u =
       (u\<lparr>dialogs := dialogs u
            @ [(''Error'', ''Error fetching weather data for '' @ city @ '': '' @ text)],
          status_var := ''Error occurred''\<rparr>, None)
   \<and> (truthy d \<and> format_current_weather env d = Inr info
      \<longrightarrow> dispatch env (CurrentWeather d city) u =
            (u\<lparr>weather_text := info, status_var := ''Weather data loaded for '' @ city,
               current_weather_data := d\<rparr>, None))
   \<and> (truthy d \<and> format_forecast env d = Inr info
      \<longrightarrow> dispatch env (Forecast d city) u =
            (u\<lparr>forecast_text := info, status_var := ''Forecast data loaded for '' @ city\<rparr>,
             None))
   \<and> ((\<forall>m \<in> set queue. \<forall>u'. snd (dispatch env m u') = None)
      \<longrightarrow> process_queue env (u, queue) =
            ((foldl (\<lambda>u m. fst (dispatch env m u)) u queue)
               \<lparr>polls_scheduled :=
                  polls_scheduled (foldl (\<lambda>u m. fst (dispatch env m u)) u queue) + 1\<rparr>,
             [], None))
   \<and> (truthy d \<and> format_current_weather env d = Inr info
      \<longrightarrow> process_queue env (u, [CurrentWeather JNull city, CurrentWeather d city']) =
            (u\<lparr>weather_text := info, status_var := ''Weather data loaded for '' @ city',
               current_weather_data := d, polls_scheduled := polls_scheduled u + 1\<rparr>,
             [], None))
   \<and> (truthy d \<and> format_current_weather env d = Inr info
      \<longrightarrow> process_queue env (u, [Forecast JNull city, CurrentWeather d city']) =
            (u\<lparr>forecast_text := ''Error: Could not fetch forecast data for '' @ city
                                  @ [CHR 0x0A],
               weather_text := info, status_var := ''Weather data loaded for '' @ city',
               current_weather_data := d, polls_scheduled := polls_scheduled u + 1\<rparr>,
             [], None))
   \<and> (truthy d \<and> format_forecast env d = Inr info
      \<longrightarrow> process_queue env (u, [Forecast JNull city, Forecast d city']) =
            (u\<lparr>forecast_text := info, status_var := ''Forecast data loaded for '' @ city',
               polls_scheduled := polls_scheduled u + 1\<rparr>,
             [], None))
   \<and> (truthy d \<and> format_forecast env d = Inr info
      \<longrightarrow> process_queue env (u, [CurrentWeather JNull city, Forecast d city']) =
            (u\<lparr>weather_text := ''Error: Could not fetch weather data for '' @ city
                                 @ [CHR 0x0A],
               forecast_text := info, status_var := ''Forecast data loaded for '' @ city',
               polls_scheduled := polls_scheduled u + 1\<rparr>,
             [], None))"
proof (intro conjI)
  show "get_weather_data api_key net city =
     (case net (weather_request api_key city) of
        Inl e \<Rightarrow> (case e of RequestException f \<Rightarrow> Inr JNull | _ \<Rightarrow> Inl e)
      | Inr resp \<Rightarrow>
          if 400 \<le> status_code resp \<and> status_code resp < 600 then Inr JNull
          else (case decoded resp of
                  Inl e \<Rightarrow> (case e of RequestException f \<Rightarrow> Inr JNull | _ \<Rightarrow> Inl e)
                | Inr d \<Rightarrow> Inr d))"
    by (rule get_weather_data_cases)
  show "get_forecast_data api_key net city days =
     (case net (forecast_request api_key city days) of
        Inl e \<Rightarrow> (case e of RequestException f \<Rightarrow> Inr JNull | _ \<Rightarrow> Inl e)
      | Inr resp \<Rightarrow>
          if 400 \<le> status_code resp \<and> status_code resp < 600 then Inr JNull
          else (case decoded resp of
                  Inl e \<Rightarrow> (case e of RequestException f \<Rightarrow> Inr JNull | _ \<Rightarrow> Inl e)
                | Inr d \<Rightarrow> Inr d))"
    by (rule get_forecast_data_cases)
  show "net (weather_request api_key city) = Inl (RequestException f)
      \<longrightarrow> get_weather_data api_key net city = Inr JNull"
    by (simp add: get_weather_data_cases)
  show "net (forecast_request api_key city days) = Inl (RequestException f)
      \<longrightarrow> get_forecast_data api_key net city days = Inr JNull"
    by (simp add: get_forecast_data_cases)
  show "\<forall>resp. net (weather_request api_key city) = Inr resp
          \<and> 400 \<le> status_code resp \<and> status_code resp < 600
      \<longrightarrow> get_weather_data api_key net city = Inr JNull"
    by (simp add: get_weather_data_cases)
  show "\<forall>resp. net (forecast_request api_key city days) = Inr resp
          \<and> 400 \<le> status_code resp \<and> status_code resp < 600
      \<longrightarrow> get_forecast_data api_key net city days = Inr JNull"
    by (simp add: get_forecast_data_cases)
  show "fetch_current_weather env api_key net city queue =
       Inr (queue @ [case get_weather_data api_key net city of
                       Inr d \<Rightarrow> CurrentWeather d city
                     | Inl e \<Rightarrow> ErrorMsg (exn_text env e) city])"
    by (simp add: fetch_current_weather_def split: sum.splits)
  show "fetch_forecast env api_key net city queue =
       Inr (queue @ [case get_forecast_data api_key net city 5 of
                       Inr d \<Rightarrow> Forecast d city
                     | Inl e \<Rightarrow> ErrorMsg (exn_text env e) city])"
    by (simp add: fetch_forecast_def default_days_def split: sum.splits)
  show "dispatch env (CurrentWeather JNull city) u =
       (u\<lparr>weather_text := ''Error: Could not fetch weather data for '' @ city @ [CHR 0x0A],
          status_var := ''Error fetching weather data''\<rparr>, None)"
    by (rule dispatch_current_failure)
  show "dispatch env (Forecast JNull city) u =
       (u\<lparr>forecast_text := ''Error: Could not fetch forecast data for '' @ city @ [CHR 0x0A],
          status_var := ''Error fetching forecast data''\<rparr>, None)"
    by (rule dispatch_forecast_failure)
  show "dispatch env (ErrorMsg text city) u =
       (u\<lparr>dialogs := dialogs u
            @ [(''Error'', ''Error fetching weather data for '' @ city @ '': '' @ text)],
          status_var := ''Error occurred''\<rparr>, None)"
    by simp
  show "truthy d \<and> format_current_weather env d = Inr info
      \<longrightarrow> dispatch env (CurrentWeather d city) u =
            (u\<lparr>weather_text := info, status_var := ''Weather data loaded for '' @ city,
               current_weather_data := d\<rparr>, None)"
    using dispatch_current_success by blast
  show "truthy d \<and> format_forecast env d = Inr info
      \<longrightarrow> dispatch env (Forecast d city) u =
            (u\<lparr>forecast_text := info, status_var := ''Forecast data loaded for '' @ city\<rparr>,
             None)"
    using dispatch_forecast_success by blast
  show "(\<forall>m \<in> set queue. \<forall>u'. snd (dispatch env m u') = None)
      \<longrightarrow> process_queue env (u, queue) =
            ((foldl (\<lambda>u m. fst (dispatch env m u)) u queue)
               \<lparr>polls_scheduled :=
                  polls_scheduled (foldl (\<lambda>u m. fst (dispatch env m u)) u queue) + 1\<rparr>,
             [], None)"
    using process_queue_all by blast
  show "truthy d \<and> format_current_weather env d = Inr info
      \<longrightarrow> process_queue env (u, [CurrentWeather JNull city, CurrentWeather d city']) =
            (u\<lparr>weather_text := info, status_var := ''Weather data loaded for '' @ city',
               current_weather_data := d, polls_scheduled := polls_scheduled u + 1\<rparr>,
             [], None)"
    by (simp add: process_queue_def display_current_weather_def)
  show "truthy d \<and> format_current_weather env d = Inr info
      \<longrightarrow> process_queue env (u, [Forecast JNull city, CurrentWeather d city']) =
            (u\<lparr>forecast_text := ''Error: Could not fetch forecast data for '' @ city
                                  @ [CHR 0x0A],
               weather_text := info, status_var := ''Weather data loaded for '' @ city',
               current_weather_data := d, polls_scheduled := polls_scheduled u + 1\<rparr>,
             [], None)"
    by (simp add: process_queue_def display_current_weather_def display_forecast_def)
  show "truthy d \<and> format_forecast env d = Inr info
      \<longrightarrow> process_queue env (u, [Forecast JNull city, Forecast d city']) =
            (u\<lparr>forecast_text := info, status_var := ''Forecast data loaded for '' @ city',
               polls_scheduled := polls_scheduled u + 1\<rparr>,
             [], None)"
    by (simp add: process_queue_def display_forecast_def)
  show "truthy d \<and> format_forecast env d = Inr info
      \<longrightarrow> process_queue env (u, [CurrentWeather JNull city, Forecast d city']) =
            (u\<lparr>weather_text := ''Error: Could not fetch weather data for '' @ city
                                 @ [CHR 0x0A],
               forecast_text := info, status_var := ''Forecast data loaded for '' @ city',
               polls_scheduled := polls_scheduled u + 1\<rparr>,
             [], None)"
    by (simp add: process_queue_def display_current_weather_def display_forecast_def)
qed

text \<open>
  The claim as stated fails for a status that is neither 2xx nor an error status: a
  response with status 300 passes \<open>raise_for_status\<close>, and the client returns its decoded
  body instead of \<open>None\<close>.
\<close>

definition multiple_choices_network :: network where
  "multiple_choices_network req =
     Inr \<lparr>status_code = 300, decoded = Inr (JObj [(''cod'', JInt 300)])\<rparr>"

theorem transport_failure_collapses_counterexample:
  "map_sum id status_code (multiple_choices_network (weather_request ''key'' ''Paris'')) = Inr 300
   \<and> get_weather_data ''key'' multiple_choices_network ''Paris'' = Inr (JObj [(''cod'', JInt 300)])
   \<and> get_weather_data ''key'' multiple_choices_network ''Paris'' \<noteq> Inr JNull
   \<and> get_forecast_data ''key'' multiple_choices_network ''Paris'' 5
       = Inr (JObj [(''cod'', JInt 300)])
   \<and> get_forecast_data ''key'' multiple_choices_network ''Paris'' 5 \<noteq> Inr JNull"
  by (simp add: multiple_choices_network_def get_weather_data_def get_forecast_data_def
      transact_def raise_for_status_def)

lemmas mock_defs = mock_renderer_def mock_lines_def ascii_letter_def ascii_upper_def
  ascii_lower_def str_int_def digits.simps

definition mock_forecast_text :: string where
  "mock_forecast_text =
     mock_lines [''Rome'', ''IT'', ''2024-01-01 12:00:00'']
     @ mock_lines [''0'', ''21.0'', ''21.0'', ''Clear Sky'', ''55'', ''1012'']
     @ ''  0: 21'' @ [CHR 0xB0] @ ''C, Clear Sky'' @ [CHR 0x0A] @ [CHR 0x0A]"

lemma mock_format_tokyo:
  "format_current_weather mock_renderer (weather_payload ''Tokyo'' 4)
     = Inr (mock_lines [''Tokyo'', ''XX'', ''2024-01-01 12:00:00'', ''4'', ''2'', ''Clear Sky'',
                        ''55'', ''1012'', ''N/A'', ''3'', ''0'', ''21600'', ''64800''])"
  by (simp add: format_current_weather_def current_weather_body_def weather_payload_def
      getitem2_def description_of_def at_index_def visibility_km_def mock_defs)

lemma mock_format_rome: "format_forecast mock_renderer forecast_payload = Inr mock_forecast_text"
  by (simp add: format_forecast_def forecast_body_def forecast_payload_def day_section_def
      hourly_line_def add_to_day_def getitem2_def description_of_def at_index_def
      mock_forecast_text_def mock_defs)

lemma mock_paris: "mock_network (weather_request ''key'' ''Paris'') = Inl (RequestException Timeout)"
  by (simp add: mock_network_def weather_request_def)

lemma mock_paris_forecast:
  "mock_network (forecast_request ''key'' ''Paris'' 5) = Inl (RequestException Timeout)"
  by (simp add: mock_network_def forecast_request_def)

lemma mock_rome_forecast:
  "mock_network (forecast_request ''key'' ''Rome'' 5)
     = Inr \<lparr>status_code = 200, decoded = Inr forecast_payload\<rparr>"
  by (simp add: mock_network_def forecast_request_def)

lemma mock_cairo:
  "mock_network (weather_request ''key'' ''Cairo'')
     = Inr \<lparr>status_code = 404, decoded = Inr (JObj [(''cod'', JStr ''404'')])\<rparr>"
  by (simp add: mock_network_def weather_request_def)

theorem transport_failure_collapses_witness:
  "mock_network (weather_request ''key'' ''Paris'') = Inl (RequestException Timeout)
   \<and> get_weather_data ''key'' mock_network ''Paris'' = Inr JNull
   \<and> get_weather_data ''key'' mock_network ''Cairo'' = Inr JNull
   \<and> get_forecast_data ''key'' mock_network ''Paris'' 5 = Inr JNull
   \<and> get_forecast_data ''key'' mock_network ''Rome'' 5 = Inr forecast_payload
   \<and> fetch_forecast mock_renderer ''key'' mock_network ''Paris'' [] = Inr [Forecast JNull ''Paris'']
   \<and> fetch_forecast mock_renderer ''key'' mock_network ''Rome'' [Forecast JNull ''Paris'']
       = Inr [Forecast JNull ''Paris'', Forecast forecast_payload ''Rome'']
   \<and> truthy forecast_payload
   \<and> format_forecast mock_renderer forecast_payload = Inr mock_forecast_text
   \<and> process_queue mock_renderer
        (initial_ui, [Forecast JNull ''Paris'', Forecast forecast_payload ''Rome''])
      = (initial_ui\<lparr>forecast_text := mock_forecast_text,
                    status_var := ''Forecast data loaded for Rome'',
                    polls_scheduled := 1\<rparr>, [], None)
   \<and> process_queue mock_renderer
        (initial_ui, [CurrentWeather JNull ''Paris'',
                      CurrentWeather (weather_payload ''Tokyo'' 4) ''Tokyo''])
      = (initial_ui\<lparr>weather_text :=
                      mock_lines [''Tokyo'', ''XX'', ''2024-01-01 12:00:00'', ''4'', ''2'',
                        ''Clear Sky'', ''55'', ''1012'', ''N/A'', ''3'', ''0'', ''21600'', ''64800''],
                    status_var := ''Weather data loaded for Tokyo'',
                    current_weather_data := weather_payload ''Tokyo'' 4,
                    polls_scheduled := 1\<rparr>, [], None)"
proof -
  note paris = transport_failure_collapses
    [where net = mock_network and api_key = "''key''" and city = "''Paris''" and days = 5
       and f = Timeout and env = mock_renderer and queue = "[]" and u = initial_ui
       and d = forecast_payload and info = mock_forecast_text and city' = "''Rome''"]
  note rome = transport_failure_collapses
    [where net = mock_network and api_key = "''key''" and city = "''Rome''" and days = 5
       and env = mock_renderer and queue = "[Forecast JNull ''Paris'']"]
  note cairo = transport_failure_collapses
    [where net = mock_network and api_key = "''key''" and city = "''Cairo''"]
  note tokyo = transport_failure_collapses
    [where env = mock_renderer and city = "''Paris''" and u = initial_ui
       and d = "weather_payload ''Tokyo'' 4" and city' = "''Tokyo''"
       and info = "mock_lines [''Tokyo'', ''XX'', ''2024-01-01 12:00:00'', ''4'', ''2'',
                        ''Clear Sky'', ''55'', ''1012'', ''N/A'', ''3'', ''0'', ''21600'', ''64800'']"]
  have p: "get_weather_data ''key'' mock_network ''Paris'' = Inr JNull"
    using paris mock_paris by blast
  have c: "get_weather_data ''key'' mock_network ''Cairo'' = Inr JNull"
  proof -
    have "(400::nat) \<le> status_code \<lparr>status_code = 404, decoded = Inr (JObj [(''cod'', JStr ''404'')])\<rparr>
        \<and> status_code \<lparr>status_code = 404, decoded = Inr (JObj [(''cod'', JStr ''404'')])\<rparr> < 600"
      by simp
    with cairo mock_cairo show ?thesis by blast
  qed
  have pf: "get_forecast_data ''key'' mock_network ''Paris'' 5 = Inr JNull"
    using paris mock_paris_forecast by blast
  have rf: "get_forecast_data ''key'' mock_network ''Rome'' 5 = Inr forecast_payload"
  proof -
    have "get_forecast_data ''key'' mock_network ''Rome'' 5 =
      (case mock_network (forecast_request ''key'' ''Rome'' 5) of
        Inl e \<Rightarrow> (case e of RequestException f \<Rightarrow> Inr JNull | _ \<Rightarrow> Inl e)
      | Inr resp \<Rightarrow>
          if 400 \<le> status_code resp \<and> status_code resp < 600 then Inr JNull
          else (case decoded resp of
                  Inl e \<Rightarrow> (case e of RequestException f \<Rightarrow> Inr JNull | _ \<Rightarrow> Inl e)
                | Inr d \<Rightarrow> Inr d))"
      using rome by blast
    then show ?thesis by (simp only: mock_rome_forecast) simp
  qed
  have wp: "fetch_forecast mock_renderer ''key'' mock_network ''Paris'' [] = Inr [Forecast JNull ''Paris'']"
  proof -
    have "fetch_forecast mock_renderer ''key'' mock_network ''Paris'' [] =
       Inr ([] @ [case get_forecast_data ''key'' mock_network ''Paris'' 5 of
                       Inr d \<Rightarrow> Forecast d ''Paris''
                     | Inl e \<Rightarrow> ErrorMsg (exn_text mock_renderer e) ''Paris''])"
      using paris by blast
    then show ?thesis by (simp only: pf) simp
  qed
  have wr: "fetch_forecast mock_renderer ''key'' mock_network ''Rome'' [Forecast JNull ''Paris'']
       = Inr [Forecast JNull ''Paris'', Forecast forecast_payload ''Rome'']"
  proof -
    have "fetch_forecast mock_renderer ''key'' mock_network ''Rome'' [Forecast JNull ''Paris''] =
       Inr ([Forecast JNull ''Paris''] @ [case get_forecast_data ''key'' mock_network ''Rome'' 5 of
                       Inr d \<Rightarrow> Forecast d ''Rome''
                     | Inl e \<Rightarrow> ErrorMsg (exn_text mock_renderer e) ''Rome''])"
      using rome by blast
    then show ?thesis by (simp only: rf) simp
  qed
  have tf: "truthy forecast_payload"
    by (simp add: forecast_payload_def)
  have tt: "truthy (weather_payload ''Tokyo'' 4)"
    by (simp add: weather_payload_def)
  have qf: "process_queue mock_renderer
        (initial_ui, [Forecast JNull ''Paris'', Forecast forecast_payload ''Rome''])
      = (initial_ui\<lparr>forecast_text := mock_forecast_text,
                    status_var := ''Forecast data loaded for '' @ ''Rome'',
                    polls_scheduled := polls_scheduled initial_ui + 1\<rparr>, [], None)"
    using paris tf mock_format_rome by blast
  have qc: "process_queue mock_renderer
        (initial_ui, [CurrentWeather JNull ''Paris'',
                      CurrentWeather (weather_payload ''Tokyo'' 4) ''Tokyo''])
      = (initial_ui\<lparr>weather_text :=
                      mock_lines [''Tokyo'', ''XX'', ''2024-01-01 12:00:00'', ''4'', ''2'',
                        ''Clear Sky'', ''55'', ''1012'', ''N/A'', ''3'', ''0'', ''21600'', ''64800''],
                    status_var := ''Weather data loaded for '' @ ''Tokyo'',
                    current_weather_data := weather_payload ''Tokyo'' 4,
                    polls_scheduled := polls_scheduled initial_ui + 1\<rparr>, [], None)"
    using tokyo tt mock_format_tokyo by blast
  have zero: "polls_scheduled initial_ui = 0"
    by (simp add: initial_ui_def)
  from mock_paris p c pf rf wp wr tf mock_format_rome qf qc show ?thesis
    by (simp add: zero)
qed

subsection \<open>Comparison\<close>

text \<open>What the comparison worker keeps of a city: its payload when the fetch returned one that is not falsy.\<close>

definition fetched :: "string \<Rightarrow> network \<Rightarrow> string \<Rightarrow> json option" where
  "fetched api_key net city =
     (case get_weather_data api_key net city of
        Inr d \<Rightarrow> if truthy d then Some d else None
      | Inl e \<Rightarrow> None)"

lemma comparison_results_eq:
  "comparison_results api_key net cs
     = List.map_filter (\<lambda>c. map_option (Pair c) (fetched api_key net c)) cs"
  by (induction cs) (auto simp: fetched_def split: sum.splits)

lemma comparison_results_cities:
  "map fst (comparison_results api_key net cs) = filter (\<lambda>c. fetched api_key net c \<noteq> None) cs"
  by (induction cs) (auto simp: fetched_def split: sum.splits)

lemma comparison_row_city: "comparison_row env res = Inr r \<Longrightarrow> fst r = fst res"
  by (auto simp: comparison_row_def Let_def and_then_def split: sum.splits)

lemma mapM_all2: "mapM f xs = Inr ys \<Longrightarrow> list_all2 (\<lambda>x y. f x = Inr y) xs ys"
  by (induction xs arbitrary: ys) (auto simp: and_then_def split: sum.splits)

lemma mapM_cities:
  "mapM (comparison_row env) results = Inr rows \<Longrightarrow> map fst rows = map fst results"
  by (induction results arbitrary: rows)
     (auto simp: and_then_def split: sum.splits dest!: comparison_row_city)

lemma insert_rows_ok:
  "mapM (comparison_row env) results = Inr rows
   \<Longrightarrow> insert_rows env results u = (u\<lparr>comparison_tree := comparison_tree u @ rows\<rparr>, None)"
  by (induction results arbitrary: u rows) (auto simp: and_then_def split: sum.splits)

lemma display_comparison_ok:
  assumes "mapM (comparison_row env) results = Inr rows" and "results \<noteq> []"
  shows "display_comparison env results u =
     (u\<lparr>comparison_tree := rows,
        status_var := ''Comparison complete for '' @ str_int (int (length results))
                      @ '' cities''\<rparr>, None)"
  using assms by (simp add: display_comparison_def insert_rows_ok)

text \<open>
  The comparison worker keeps, in input order, the cities whose fetch returned a truthy
  payload, and puts them in one message. When every kept payload yields a row, displaying
  the message fills the table with exactly these rows, in input order, each headed by its
  city; and when nothing was kept the table is left as it is and a warning is shown.
\<close>

lemma comparison_rows_of_complete_payloads:
  assumes "mapM (comparison_row env) (comparison_results api_key net cs) = Inr rows"
  shows "fetch_comparison_data api_key net cs queue
           = Inr (queue @ [Comparison (comparison_results api_key net cs)])
    \<and> comparison_results api_key net cs
        = List.map_filter (\<lambda>c. map_option (Pair c) (fetched api_key net c)) cs
    \<and> list_all2 (\<lambda>res r. comparison_row env res = Inr r) (comparison_results api_key net cs) rows
    \<and> map fst rows = filter (\<lambda>c. fetched api_key net c \<noteq> None) cs
    \<and> (comparison_results api_key net cs \<noteq> []
        \<longrightarrow> fst (dispatch env (Comparison (comparison_results api_key net cs)) u)
             = u\<lparr>comparison_tree := rows,
                  status_var := ''Comparison complete for ''
                     @ str_int (int (length (comparison_results api_key net cs))) @ '' cities''\<rparr>
          \<and> snd (dispatch env (Comparison (comparison_results api_key net cs)) u) = None)
    \<and> (comparison_results api_key net cs = []
        \<longrightarrow> dispatch env (Comparison (comparison_results api_key net cs)) u
             = (u\<lparr>dialogs := dialogs u
                    @ [(''Warning'', ''No weather data could be retrieved for comparison'')]\<rparr>,
                None))"
proof (intro conjI impI)
  show "fetch_comparison_data api_key net cs queue
           = Inr (queue @ [Comparison (comparison_results api_key net cs)])"
    by (simp add: fetch_comparison_data_def)
  show "comparison_results api_key net cs
        = List.map_filter (\<lambda>c. map_option (Pair c) (fetched api_key net c)) cs"
    by (rule comparison_results_eq)
  show "list_all2 (\<lambda>res r. comparison_row env res = Inr r) (comparison_results api_key net cs) rows"
    using assms by (rule mapM_all2)
  show "map fst rows = filter (\<lambda>c. fetched api_key net c \<noteq> None) cs"
    using assms by (simp add: mapM_cities comparison_results_cities)
next
  assume "comparison_results api_key net cs \<noteq> []"
  with assms show "fst (dispatch env (Comparison (comparison_results api_key net cs)) u)
             = u\<lparr>comparison_tree := rows,
                  status_var := ''Comparison complete for ''
                     @ str_int (int (length (comparison_results api_key net cs))) @ '' cities''\<rparr>"
    and "snd (dispatch env (Comparison (comparison_results api_key net cs)) u) = None"
    by (simp_all add: display_comparison_ok)
next
  assume "comparison_results api_key net cs = []"
  then show "dispatch env (Comparison (comparison_results api_key net cs)) u
             = (u\<lparr>dialogs := dialogs u
                    @ [(''Warning'', ''No weather data could be retrieved for comparison'')]\<rparr>,
                None)"
    by (simp add: display_comparison_def)
qed

lemma mock_comparison_results:
  "comparison_results ''key'' mock_network [''Tokyo'', ''Paris'', ''Rome'', ''Cairo'']
     = [(''Tokyo'', weather_payload ''Tokyo'' 4), (''Rome'', weather_payload ''Rome'' 21)]"
  by (simp add: get_weather_data_def transact_def raise_for_status_def weather_request_def
      mock_network_def weather_payload_def)

lemma mock_comparison_rows:
  "mapM (comparison_row mock_renderer)
        [(''Tokyo'', weather_payload ''Tokyo'' 4), (''Rome'', weather_payload ''Rome'' 21)]
     = Inr [(''Tokyo'', ''4.0'' @ [CHR 0xB0] @ ''C'', ''55%'', ''1012 hPa'', ''Clear Sky''),
            (''Rome'', ''21.0'' @ [CHR 0xB0] @ ''C'', ''55%'', ''1012 hPa'', ''Clear Sky'')]"
  by (simp add: comparison_row_def weather_payload_def getitem2_def description_of_def
      at_index_def mock_defs)

lemma comparison_rows_example:
  "comparison_results ''key'' mock_network [''Tokyo'', ''Paris'', ''Rome'', ''Cairo'']
     = [(''Tokyo'', weather_payload ''Tokyo'' 4), (''Rome'', weather_payload ''Rome'' 21)]
   \<and> fst (dispatch mock_renderer
        (Comparison (comparison_results ''key'' mock_network [''Tokyo'', ''Paris'', ''Rome'', ''Cairo'']))
        initial_ui)
     = initial_ui\<lparr>comparison_tree :=
          [(''Tokyo'', ''4.0'' @ [CHR 0xB0] @ ''C'', ''55%'', ''1012 hPa'', ''Clear Sky''),
           (''Rome'', ''21.0'' @ [CHR 0xB0] @ ''C'', ''55%'', ''1012 hPa'', ''Clear Sky'')],
         status_var := ''Comparison complete for 2 cities''\<rparr>"
proof -
  have rows: "mapM (comparison_row mock_renderer)
        (comparison_results ''key'' mock_network [''Tokyo'', ''Paris'', ''Rome'', ''Cairo''])
     = Inr [(''Tokyo'', ''4.0'' @ [CHR 0xB0] @ ''C'', ''55%'', ''1012 hPa'', ''Clear Sky''),
            (''Rome'', ''21.0'' @ [CHR 0xB0] @ ''C'', ''55%'', ''1012 hPa'', ''Clear Sky'')]"
    by (simp only: mock_comparison_results mock_comparison_rows)
  have ne: "comparison_results ''key'' mock_network [''Tokyo'', ''Paris'', ''Rome'', ''Cairo''] \<noteq> []"
    by (simp only: mock_comparison_results) simp
  have len: "str_int (int (length (comparison_results ''key'' mock_network
        [''Tokyo'', ''Paris'', ''Rome'', ''Cairo'']))) = ''2''"
    by (simp only: mock_comparison_results) (simp add: str_int_def digits.simps)
  have "fst (dispatch mock_renderer
        (Comparison (comparison_results ''key'' mock_network [''Tokyo'', ''Paris'', ''Rome'', ''Cairo'']))
        initial_ui)
     = initial_ui\<lparr>comparison_tree :=
          [(''Tokyo'', ''4.0'' @ [CHR 0xB0] @ ''C'', ''55%'', ''1012 hPa'', ''Clear Sky''),
           (''Rome'', ''21.0'' @ [CHR 0xB0] @ ''C'', ''55%'', ''1012 hPa'', ''Clear Sky'')],
         status_var := ''Comparison complete for '' @ str_int (int (length
           (comparison_results ''key'' mock_network [''Tokyo'', ''Paris'', ''Rome'', ''Cairo''])))
           @ '' cities''\<rparr>"
    using comparison_rows_of_complete_payloads [OF rows, of "[]" initial_ui] ne by blast
  then have "fst (dispatch mock_renderer
        (Comparison (comparison_results ''key'' mock_network [''Tokyo'', ''Paris'', ''Rome'', ''Cairo'']))
        initial_ui)
     = initial_ui\<lparr>comparison_tree :=
          [(''Tokyo'', ''4.0'' @ [CHR 0xB0] @ ''C'', ''55%'', ''1012 hPa'', ''Clear Sky''),
           (''Rome'', ''21.0'' @ [CHR 0xB0] @ ''C'', ''55%'', ''1012 hPa'', ''Clear Sky'')],
         status_var := ''Comparison complete for 2 cities''\<rparr>"
    unfolding len by simp
  from mock_comparison_results this show ?thesis by (rule conjI)
qed

text \<open>A network that answers every request with a 200 document holding no weather field.\<close>

definition bare_network :: network where
  "bare_network req = Inr \<lparr>status_code = 200, decoded = Inr (JObj [(''cod'', JInt 200)])\<rparr>"

text \<open>The mock network, except that Paris is answered with such a document.\<close>

definition partial_network :: network where
  "partial_network req =
     (if map_of (params req) ''q'' = Some (PStr ''Paris'') then bare_network req
      else mock_network req)"

text \<open>
  Claim C7 fails on the code for a city whose fetch succeeded with a payload that lacks a
  field of the row. The worker keeps every truthy payload, and \<open>display_comparison\<close>
  builds its rows outside any \<open>try\<close>: the \<open>KeyError\<close> of the first such payload ends the
  display, so that this city and every city after it get no row, whatever their payload.
  With two bare answers the table stays empty; with a bare answer for Paris between
  complete ones for Tokyo and Rome the table ends with the row of Tokyo alone.
\<close>

theorem comparison_rows_lost_on_missing_field:
  "comparison_results ''key'' bare_network [''Paris'', ''Rome'']
     = [(''Paris'', JObj [(''cod'', JInt 200)]), (''Rome'', JObj [(''cod'', JInt 200)])]
   \<and> dispatch env (Comparison (comparison_results ''key'' bare_network [''Paris'', ''Rome''])) u
     = (u\<lparr>comparison_tree := []\<rparr>, Some (KeyError (KStr ''main'')))
   \<and> comparison_results ''key'' partial_network [''Tokyo'', ''Paris'', ''Rome'']
     = [(''Tokyo'', weather_payload ''Tokyo'' 4), (''Paris'', JObj [(''cod'', JInt 200)]),
        (''Rome'', weather_payload ''Rome'' 21)]
   \<and> dispatch mock_renderer
        (Comparison (comparison_results ''key'' partial_network [''Tokyo'', ''Paris'', ''Rome'']))
        initial_ui
     = (initial_ui\<lparr>comparison_tree :=
          [(''Tokyo'', ''4.0'' @ [CHR 0xB0] @ ''C'', ''55%'', ''1012 hPa'', ''Clear Sky'')]\<rparr>,
        Some (KeyError (KStr ''main'')))"
proof -
  have bare: "comparison_results ''key'' bare_network [''Paris'', ''Rome'']
     = [(''Paris'', JObj [(''cod'', JInt 200)]), (''Rome'', JObj [(''cod'', JInt 200)])]"
    by (simp add: get_weather_data_def transact_def raise_for_status_def bare_network_def)
  have part: "comparison_results ''key'' partial_network [''Tokyo'', ''Paris'', ''Rome'']
     = [(''Tokyo'', weather_payload ''Tokyo'' 4), (''Paris'', JObj [(''cod'', JInt 200)]),
        (''Rome'', weather_payload ''Rome'' 21)]"
    by (simp add: get_weather_data_def transact_def raise_for_status_def bare_network_def
        partial_network_def mock_network_def weather_request_def weather_payload_def)
  have d1: "dispatch env
        (Comparison [(''Paris'', JObj [(''cod'', JInt 200)]), (''Rome'', JObj [(''cod'', JInt 200)])]) u
     = (u\<lparr>comparison_tree := []\<rparr>, Some (KeyError (KStr ''main'')))"
    by (simp add: display_comparison_def comparison_row_def getitem2_def)
  have d2: "dispatch mock_renderer
        (Comparison [(''Tokyo'', weather_payload ''Tokyo'' 4), (''Paris'', JObj [(''cod'', JInt 200)]),
                     (''Rome'', weather_payload ''Rome'' 21)])
        initial_ui
     = (initial_ui\<lparr>comparison_tree :=
          [(''Tokyo'', ''4.0'' @ [CHR 0xB0] @ ''C'', ''55%'', ''1012 hPa'', ''Clear Sky'')]\<rparr>,
        Some (KeyError (KStr ''main'')))"
    by (simp add: display_comparison_def comparison_row_def weather_payload_def getitem2_def
        description_of_def at_index_def initial_ui_def mock_defs)
  show ?thesis
    unfolding bare part using d1 d2 by simp
qed

subsection \<open>The comparison set\<close>

lemma distinct_count_list: "distinct xs \<Longrightarrow> count_list xs x = (if x \<in> set xs then 1 else 0)"
  by (induction xs) auto

lemma comparison_set_distinct: "comparison_set xs \<Longrightarrow> distinct xs"
proof (induction rule: comparison_set.induct)
  case start
  show ?case by simp
next
  case (added xs sel)
  then show ?case by (simp add: add_comparison_city_def split: option.splits)
next
  case (removed xs "is")
  have "distinct (take i xs @ drop (Suc i) xs)" for i
    using removed.IH by (simp add: set_take_disj_set_drop_if_distinct)
  with removed.IH show ?case by (simp add: remove_comparison_city_def split: list.splits)
next
  case (cleared xs)
  show ?case by (simp add: clear_comparison_cities_def)
qed

text \<open>
  Claim C8. In every state the listbox can reach, adding a city name (the dialog returns
  names of the directory, which are not empty) twice leaves exactly one entry of that name,
  the second insert changing nothing; and an insert keeps the earlier names, in their
  order, as a prefix: the list stays as it is or grows by the new name at its end.
\<close>

theorem add_comparison_city_idempotent:
  assumes "comparison_set xs" and "city \<noteq> []"
  shows "count_list (add_comparison_city (Some city) (add_comparison_city (Some city) xs)) city = 1
    \<and> add_comparison_city (Some city) (add_comparison_city (Some city) xs)
        = add_comparison_city (Some city) xs
    \<and> prefix xs (add_comparison_city (Some city) xs)
    \<and> (add_comparison_city (Some city) xs = xs \<or> add_comparison_city (Some city) xs = xs @ [city])"
proof -
  have "distinct xs" using assms(1) by (rule comparison_set_distinct)
  then have "city \<in> set xs \<Longrightarrow> count_list xs city = 1"
    by (simp add: distinct_count_list)
  then show ?thesis
    using assms(2) by (auto simp: add_comparison_city_def)
qed

theorem add_comparison_city_idempotent_witness:
  "comparison_set [''Paris'']
   \<and> add_comparison_city (Some ''Tokyo'') [''Paris''] = [''Paris'', ''Tokyo'']
   \<and> add_comparison_city (Some ''Tokyo'') (add_comparison_city (Some ''Tokyo'') [''Paris''])
       = [''Paris'', ''Tokyo'']
   \<and> count_list (add_comparison_city (Some ''Tokyo'') (add_comparison_city (Some ''Tokyo'') [''Paris'']))
        ''Tokyo'' = 1"
proof -
  have "comparison_set (add_comparison_city (Some ''Paris'') [])"
    using start by (rule added)
  then have s: "comparison_set [''Paris'']"
    by (simp add: add_comparison_city_def)
  have n: "''Tokyo'' \<noteq> []" by simp
  have a: "add_comparison_city (Some ''Tokyo'') [''Paris''] = [''Paris'', ''Tokyo'']"
    by (simp add: add_comparison_city_def)
  from add_comparison_city_idempotent [OF s n] s a show ?thesis by simp
qed

subsection \<open>Formatting a payload with a missing field\<close>

text \<open>
  The fields a formatter reads by subscription, as paths of keys in the order of reading;
  \<open>first_fault\<close> is what the first path that cannot be walked raises.
\<close>

fun walk :: "json \<Rightarrow> key list \<Rightarrow> exn + json" where
  "walk data [] = Inr data"
| "walk data (k # ks) = and_then (getitem data k) (\<lambda>x. walk x ks)"

fun first_fault :: "json \<Rightarrow> key list list \<Rightarrow> exn option" where
  "first_fault data [] = None"
| "first_fault data (p # ps) =
     (case walk data p of Inl e \<Rightarrow> Some e | Inr v \<Rightarrow> first_fault data ps)"

definition current_weather_fields :: "key list list" where
  "current_weather_fields =
     [[KStr ''name''], [KStr ''sys'', KStr ''country''], [KStr ''main'', KStr ''temp''],
      [KStr ''main'', KStr ''feels_like''], [KStr ''main'', KStr ''humidity''],
      [KStr ''main'', KStr ''pressure''], [KStr ''weather'', KInt 0, KStr ''description''],
      [KStr ''wind'', KStr ''speed''], [KStr ''sys'', KStr ''sunrise''],
      [KStr ''sys'', KStr ''sunset'']]"

definition forecast_fields :: "key list list" where
  "forecast_fields = [[KStr ''city'', KStr ''name''], [KStr ''city'', KStr ''country''], [KStr ''list'']]"

definition missing_key :: "string \<Rightarrow> key \<Rightarrow> string" where
  "missing_key what k = ''Error formatting '' @ what @ '' data: Missing key '' @ key_repr k"

lemma and_then_Inr [simp]: "and_then m Inr = m"
  by (cases m) simp_all

lemma walk1: "walk data [a] = getitem data a"
  by simp

lemma walk2: "walk data [KStr a, KStr b] = getitem2 data a b"
  by (simp add: getitem2_def)

lemma walk_description:
  "walk data [KStr ''weather'', KInt 0, KStr ''description''] = description_of data"
  by (simp add: description_of_def)

lemma missing_key_text_never_KeyError: "missing_key_text what r \<noteq> Inl (KeyError k)"
  by (cases "(what, r)" rule: missing_key_text.cases) simp_all

lemma getitem_wind_dict:
  "getitem2 data ''wind'' ''speed'' = Inr v \<Longrightarrow> \<exists>kvs. getitem data (KStr ''wind'') = Inr (JObj kvs)"
  apply (cases "getitem data (KStr ''wind'')")
   apply (simp add: getitem2_def)
  subgoal for w by (cases w) (simp_all add: getitem2_def)
  done

lemma getitem_name_dict: "getitem data (KStr ''name'') = Inr v \<Longrightarrow> \<exists>kvs. data = JObj kvs"
  by (cases data) simp_all

lemma forecast_first_fault:
  assumes "first_fault data forecast_fields = Some (KeyError k)"
  shows "forecast_body env data = Inl (KeyError k)"
  using assms unfolding forecast_fields_def forecast_body_def
  by (simp add: walk1 walk2 del: walk.simps split: sum.splits)

lemma wind_deg_ok:
  assumes "getitem2 data ''wind'' ''speed'' = Inr v"
  shows "\<exists>d. and_then (getitem data (KStr ''wind'')) (\<lambda>w. dict_get w ''deg'' (JInt 0)) = Inr d"
proof -
  obtain kvs where "getitem data (KStr ''wind'') = Inr (JObj kvs)"
    using getitem_wind_dict [OF assms] by blast
  then show ?thesis by (simp split: option.splits)
qed

lemma visibility_ok:
  assumes "getitem data (KStr ''name'') = Inr v"
  shows "\<exists>d. dict_get data ''visibility'' (JStr ''N/A'') = Inr d"
proof -
  obtain kvs where "data = JObj kvs"
    using getitem_name_dict [OF assms] by blast
  then show ?thesis by (simp split: option.splits)
qed

lemma current_first_fault:
  assumes "first_fault data current_weather_fields = Some (KeyError k)"
    and "\<forall>d. description_of data = Inr d \<longrightarrow> (\<exists>s. d = JStr s)"
    and "\<forall>v. getitem2 data ''sys'' ''sunrise'' = Inr v
           \<longrightarrow> (\<exists>t. clock env ''%H:%M:%S'' v = Inr t)"
  shows "current_weather_body env data = Inl (KeyError k)"
  using assms unfolding current_weather_fields_def current_weather_body_def
  apply (simp add: walk1 walk2 walk_description del: walk.simps split: sum.splits)
   apply (metis wind_deg_ok visibility_ok and_then_simps(2))
  apply (metis wind_deg_ok visibility_ok and_then_simps(2))
  done

text \<open>
  Neither formatter lets a \<open>KeyError\<close> out: whenever reading the payload hits a missing
  key \<open>k\<close>, the result is the text \<open>Error formatting ... data: Missing key k\<close>, with
  the key as \<open>repr\<close> prints it. In particular, for the current weather, when the first
  field that cannot be read is missing from its dict (and the condition text, where
  present, is a string and the sunrise, where present, is a time), the result is that text
  naming the missing key; and likewise for the city name, the country and the sample list
  of a forecast.
\<close>

lemma missing_key_is_inline_text:
  "(\<forall>k'. format_current_weather env data \<noteq> Inl (KeyError k'))
   \<and> (\<forall>k'. format_forecast env data \<noteq> Inl (KeyError k'))
   \<and> (current_weather_body env data = Inl (KeyError k)
       \<longrightarrow> format_current_weather env data = Inr (missing_key ''weather'' k))
   \<and> (forecast_body env data = Inl (KeyError k)
       \<longrightarrow> format_forecast env data = Inr (missing_key ''forecast'' k))
   \<and> (first_fault data current_weather_fields = Some (KeyError k)
        \<and> (\<forall>d. description_of data = Inr d \<longrightarrow> (\<exists>s. d = JStr s))
        \<and> (\<forall>v. getitem2 data ''sys'' ''sunrise'' = Inr v
               \<longrightarrow> (\<exists>t. clock env ''%H:%M:%S'' v = Inr t))
       \<longrightarrow> format_current_weather env data = Inr (missing_key ''weather'' k))
   \<and> (first_fault data forecast_fields = Some (KeyError k)
       \<longrightarrow> format_forecast env data = Inr (missing_key ''forecast'' k))"
proof (intro conjI allI impI)
  show "format_current_weather env data \<noteq> Inl (KeyError k')" for k'
    by (simp add: format_current_weather_def missing_key_text_never_KeyError)
  show "format_forecast env data \<noteq> Inl (KeyError k')" for k'
    by (simp add: format_forecast_def missing_key_text_never_KeyError)
  show "format_current_weather env data = Inr (missing_key ''weather'' k)"
    if "current_weather_body env data = Inl (KeyError k)"
    using that by (simp add: format_current_weather_def missing_key_def)
  show "format_forecast env data = Inr (missing_key ''forecast'' k)"
    if "forecast_body env data = Inl (KeyError k)"
    using that by (simp add: format_forecast_def missing_key_def)
  show "format_current_weather env data = Inr (missing_key ''weather'' k)"
    if "first_fault data current_weather_fields = Some (KeyError k)
        \<and> (\<forall>d. description_of data = Inr d \<longrightarrow> (\<exists>s. d = JStr s))
        \<and> (\<forall>v. getitem2 data ''sys'' ''sunrise'' = Inr v
               \<longrightarrow> (\<exists>t. clock env ''%H:%M:%S'' v = Inr t))"
  proof -
    have "current_weather_body env data = Inl (KeyError k)"
      using that current_first_fault by blast
    then show ?thesis
      by (simp add: format_current_weather_def missing_key_def)
  qed
  show "format_forecast env data = Inr (missing_key ''forecast'' k)"
    if "first_fault data forecast_fields = Some (KeyError k)"
    using forecast_first_fault [OF that]
    by (simp add: format_forecast_def missing_key_def)
qed

definition tokyo_without_feels_like :: json where
  "tokyo_without_feels_like =
     JObj [(''name'', JStr ''Tokyo''), (''sys'', JObj [(''country'', JStr ''JP'')]),
           (''main'', JObj [(''temp'', JInt 18)])]"

definition forecast_without_main :: json where
  "forecast_without_main =
     JObj [(''city'', JObj [(''name'', JStr ''Tokyo''), (''country'', JStr ''JP'')]),
           (''list'', JArr [JObj [(''dt'', JInt 0)]])]"

lemma missing_key_is_inline_text_example:
  "first_fault tokyo_without_feels_like current_weather_fields
     = Some (KeyError (KStr ''feels_like''))
   \<and> format_current_weather mock_renderer tokyo_without_feels_like
     = Inr (''Error formatting weather data: Missing key '' @ [CHR 0x27] @ ''feels_like''
            @ [CHR 0x27])
   \<and> forecast_body mock_renderer forecast_without_main = Inl (KeyError (KStr ''main''))
   \<and> format_forecast mock_renderer forecast_without_main
     = Inr (''Error formatting forecast data: Missing key '' @ [CHR 0x27] @ ''main''
            @ [CHR 0x27])"
proof -
  have f: "first_fault tokyo_without_feels_like current_weather_fields
     = Some (KeyError (KStr ''feels_like''))"
    by (simp add: tokyo_without_feels_like_def current_weather_fields_def)
  have d: "\<forall>d. description_of tokyo_without_feels_like = Inr d \<longrightarrow> (\<exists>s. d = JStr s)"
    by (simp add: tokyo_without_feels_like_def description_of_def)
  have s: "\<forall>v. getitem2 tokyo_without_feels_like ''sys'' ''sunrise'' = Inr v
      \<longrightarrow> (\<exists>t. clock mock_renderer ''%H:%M:%S'' v = Inr t)"
    by (simp add: tokyo_without_feels_like_def getitem2_def)
  have b: "forecast_body mock_renderer forecast_without_main = Inl (KeyError (KStr ''main''))"
    by (simp add: forecast_without_main_def forecast_body_def getitem2_def add_to_day_def
        day_section_def mock_renderer_def)
  note t = missing_key_is_inline_text
  have "format_current_weather mock_renderer tokyo_without_feels_like
      = Inr (missing_key ''weather'' (KStr ''feels_like''))"
    using t [of mock_renderer tokyo_without_feels_like "KStr ''feels_like''"] f d s by blast
  moreover have "format_forecast mock_renderer forecast_without_main
      = Inr (missing_key ''forecast'' (KStr ''main''))"
    using t [of mock_renderer forecast_without_main "KStr ''main''"] b by blast
  ultimately show ?thesis using f b by (simp add: missing_key_def)
qed

text \<open>
  A current-weather payload and a forecast payload that are complete except that the
  \<open>weather\<close> list is empty, so that the condition text has nowhere to be read from.
\<close>

definition tokyo_with_empty_weather :: json where
  "tokyo_with_empty_weather =
     JObj [(''name'', JStr ''Tokyo''),
           (''sys'', JObj [(''country'', JStr ''JP''), (''sunrise'', JInt 21600),
                           (''sunset'', JInt 64800)]),
           (''main'', JObj [(''temp'', JInt 18), (''feels_like'', JInt 17),
                            (''humidity'', JInt 55), (''pressure'', JInt 1012)]),
           (''weather'', JArr []),
           (''wind'', JObj [(''speed'', JInt 3)])]"

definition forecast_with_empty_weather :: json where
  "forecast_with_empty_weather =
     JObj [(''city'', JObj [(''name'', JStr ''Tokyo''), (''country'', JStr ''JP'')]),
           (''list'', JArr [JObj [(''dt'', JInt 0),
                                  (''main'', JObj [(''temp'', JInt 18), (''humidity'', JInt 55),
                                                   (''pressure'', JInt 1012)]),
                                  (''weather'', JArr [])]])]"

text \<open>
  Claim C9 fails on the code for an expected field that is absent without a key being
  missing. Both formatters catch \<open>KeyError\<close> only; with an empty \<open>weather\<close> list the
  condition text \<open>weather[0]['description']\<close> is absent and reading it raises
  \<open>IndexError\<close>, which leaves the formatter, the display handler and \<open>process_queue\<close>:
  no inline text is shown, the result queued behind stays undelivered and no further poll
  is scheduled.
\<close>

theorem formatter_raises_on_empty_weather:
  "first_fault tokyo_with_empty_weather current_weather_fields = Some IndexError
   \<and> format_current_weather env tokyo_with_empty_weather = Inl IndexError
   \<and> format_forecast mock_renderer forecast_with_empty_weather = Inl IndexError
   \<and> process_queue env
        (u, [CurrentWeather tokyo_with_empty_weather ''Tokyo'', CurrentWeather JNull ''Paris''])
     = (u\<lparr>weather_text := [], current_weather_data := tokyo_with_empty_weather\<rparr>,
        [CurrentWeather JNull ''Paris''], Some IndexError)
   \<and> process_queue mock_renderer
        (initial_ui, [Forecast forecast_with_empty_weather ''Tokyo'', Forecast JNull ''Paris''])
     = (initial_ui, [Forecast JNull ''Paris''], Some IndexError)"
proof -
  have ff: "first_fault tokyo_with_empty_weather current_weather_fields = Some IndexError"
    by (simp add: tokyo_with_empty_weather_def current_weather_fields_def at_index_def)
  have fc: "format_current_weather env tokyo_with_empty_weather = Inl IndexError"
    by (simp add: format_current_weather_def current_weather_body_def
        tokyo_with_empty_weather_def getitem2_def description_of_def at_index_def)
  have fb: "format_forecast mock_renderer forecast_with_empty_weather = Inl IndexError"
    by (simp add: format_forecast_def forecast_body_def forecast_with_empty_weather_def
        day_section_def add_to_day_def getitem2_def description_of_def at_index_def
        mock_renderer_def)
  have tc: "truthy tokyo_with_empty_weather"
    by (simp add: tokyo_with_empty_weather_def)
  have tf: "truthy forecast_with_empty_weather"
    by (simp add: forecast_with_empty_weather_def)
  have pc: "process_queue env
        (u, [CurrentWeather tokyo_with_empty_weather ''Tokyo'', CurrentWeather JNull ''Paris''])
     = (u\<lparr>weather_text := [], current_weather_data := tokyo_with_empty_weather\<rparr>,
        [CurrentWeather JNull ''Paris''], Some IndexError)"
    using tc fc by (simp add: process_queue_def display_current_weather_def)
  have pf: "process_queue mock_renderer
        (initial_ui, [Forecast forecast_with_empty_weather ''Tokyo'', Forecast JNull ''Paris''])
     = (initial_ui, [Forecast JNull ''Paris''], Some IndexError)"
    using tf fb by (simp add: process_queue_def display_forecast_def initial_ui_def)
  from ff fc fb pc pf show ?thesis by simp
qed

subsection \<open>The poll and a handler that raises\<close>

text \<open>What dispatching a message raises; it does not depend on the state of the widgets.\<close>

fun raises :: "renderer \<Rightarrow> message \<Rightarrow> exn option" where
  "raises env (CurrentWeather data city) =
     (if truthy data
      then (case format_current_weather env data of Inl e \<Rightarrow> Some e | Inr t \<Rightarrow> None)
      else None)"
| "raises env (Forecast data city) =
     (if truthy data
      then (case format_forecast env data of Inl e \<Rightarrow> Some e | Inr t \<Rightarrow> None)
      else None)"
| "raises env (Comparison results) =
     (case mapM (comparison_row env) results of Inl e \<Rightarrow> Some e | Inr rows \<Rightarrow> None)"
| "raises env (ErrorMsg data city) = None"

lemma insert_rows_raises:
  "mapM (comparison_row env) results = Inl e \<Longrightarrow> snd (insert_rows env results u) = Some e"
  by (induction results arbitrary: u) (auto simp: and_then_def split: sum.splits)

lemma dispatch_raises: "snd (dispatch env m u) = raises env m"
proof (cases m)
  case (CurrentWeather data city)
  then show ?thesis
    by (simp add: display_current_weather_def Let_def split: sum.splits)
next
  case (Forecast data city)
  then show ?thesis
    by (simp add: display_forecast_def Let_def split: sum.splits)
next
  case (Comparison results)
  show ?thesis
  proof (cases "mapM (comparison_row env) results")
    case (Inl e)
    then have "results \<noteq> []" by auto
    with Inl Comparison show ?thesis
      using insert_rows_raises [OF Inl, of "u\<lparr>comparison_tree := []\<rparr>"]
      by (auto simp: display_comparison_def split: prod.splits option.splits)
  next
    case (Inr rows)
    with Comparison show ?thesis
      by (simp add: display_comparison_def insert_rows_ok)
  qed
next
  case (ErrorMsg data city)
  then show ?thesis by simp
qed

text \<open>
  When no handler raises, one run of the loop applies the handlers to the queued messages
  in FIFO order, each once, and leaves the queue empty; \<open>process_queue\<close> then reschedules.
\<close>

lemma drain_fifo:
  assumes "\<forall>m \<in> set queue. raises env m = None"
  shows "drain env u queue = (foldl (\<lambda>u m. fst (dispatch env m u)) u queue, [], None)"
  using assms
proof (induction queue arbitrary: u)
  case Nil
  show ?case by simp
next
  case (Cons m queue)
  then have "snd (dispatch env m u) = None"
    by (simp add: dispatch_raises)
  then obtain u1 where "dispatch env m u = (u1, None)"
    by (cases "dispatch env m u") simp
  with Cons show ?case by simp
qed

lemma process_queue_fifo:
  assumes "\<forall>m \<in> set queue. raises env m = None"
  shows "process_queue env (u, queue) =
     ((foldl (\<lambda>u m. fst (dispatch env m u)) u queue)
        \<lparr>polls_scheduled := polls_scheduled (foldl (\<lambda>u m. fst (dispatch env m u)) u queue) + 1\<rparr>,
      [], None)"
  by (simp add: process_queue_def drain_fifo [OF assms])

text \<open>
  Claim C1 fails on the code when a handler raises. \<open>display_comparison\<close> reads
  \<open>data['main']\<close> outside any \<open>try\<close>. The comparison worker keeps a payload without
  \<open>main\<close> (it is truthy) and puts it on the queue; a current-weather result is put behind
  it. In the poll the \<open>KeyError\<close> leaves \<open>process_queue\<close>, which catches \<open>queue.Empty\<close>
  only: the message behind stays in the queue and no further poll is scheduled.
\<close>

theorem poll_stops_when_handler_raises:
  "fetch_comparison_data ''key'' bare_network [''Paris'', ''Rome''] []
     = Inr [Comparison [(''Paris'', JObj [(''cod'', JInt 200)]),
                        (''Rome'', JObj [(''cod'', JInt 200)])]]
   \<and> fetch_current_weather env ''key'' mock_network ''Paris''
        [Comparison [(''Paris'', JObj [(''cod'', JInt 200)]),
                     (''Rome'', JObj [(''cod'', JInt 200)])]]
     = Inr [Comparison [(''Paris'', JObj [(''cod'', JInt 200)]),
                        (''Rome'', JObj [(''cod'', JInt 200)])],
            CurrentWeather JNull ''Paris'']
   \<and> process_queue env
        (u, [Comparison [(''Paris'', JObj [(''cod'', JInt 200)]),
                         (''Rome'', JObj [(''cod'', JInt 200)])],
             CurrentWeather JNull ''Paris''])
     = (u\<lparr>comparison_tree := []\<rparr>, [CurrentWeather JNull ''Paris''],
        Some (KeyError (KStr ''main'')))
   \<and> polls_scheduled (fst (process_queue env
        (u, [Comparison [(''Paris'', JObj [(''cod'', JInt 200)]),
                         (''Rome'', JObj [(''cod'', JInt 200)])],
             CurrentWeather JNull ''Paris''])))
     = polls_scheduled u"
proof (intro conjI)
  show "fetch_comparison_data ''key'' bare_network [''Paris'', ''Rome''] []
     = Inr [Comparison [(''Paris'', JObj [(''cod'', JInt 200)]),
                        (''Rome'', JObj [(''cod'', JInt 200)])]]"
    by (simp add: fetch_comparison_data_def get_weather_data_def transact_def
        raise_for_status_def bare_network_def)
  show "fetch_current_weather env ''key'' mock_network ''Paris''
        [Comparison [(''Paris'', JObj [(''cod'', JInt 200)]),
                     (''Rome'', JObj [(''cod'', JInt 200)])]]
     = Inr [Comparison [(''Paris'', JObj [(''cod'', JInt 200)]),
                        (''Rome'', JObj [(''cod'', JInt 200)])],
            CurrentWeather JNull ''Paris'']"
    by (simp add: fetch_current_weather_def get_weather_data_def transact_get_raises mock_paris)
  show "process_queue env
        (u, [Comparison [(''Paris'', JObj [(''cod'', JInt 200)]),
                         (''Rome'', JObj [(''cod'', JInt 200)])],
             CurrentWeather JNull ''Paris''])
     = (u\<lparr>comparison_tree := []\<rparr>, [CurrentWeather JNull ''Paris''],
        Some (KeyError (KStr ''main'')))"
    by (simp add: process_queue_def display_comparison_def comparison_row_def getitem2_def)
  then show "polls_scheduled (fst (process_queue env
        (u, [Comparison [(''Paris'', JObj [(''cod'', JInt 200)]),
                         (''Rome'', JObj [(''cod'', JInt 200)])],
             CurrentWeather JNull ''Paris''])))
     = polls_scheduled u"
    by simp
qed

end
